theory Spec2Isabelle
  imports Complex_Main "HOL-Library.Sublist" "HOL-Library.Char_ord" "HOL-Library.List_Lexorder"
begin

section \<open>Python values and the library functions the engine calls\<close>

text \<open>
  The explanation engine of qinter is Python. Strings are lists of characters, a character
  standing for a code point below 256; string comparison is lexicographic by code point,
  as Python's is. Integers are unbounded. A float is the exact rational value of a double,
  or one of the three special values; the literals \<open>0.0\<close>, \<open>0.6\<close> and \<open>0.4\<close> of the source
  are the doubles they denote. Negative zero is identified with zero: the comparisons of
  the source do not tell them apart, only the text of such a float would.
\<close>

datatype pyfloat = Finite rat | PosInf | NegInf | NaN

fun float_gt :: "pyfloat \<Rightarrow> pyfloat \<Rightarrow> bool" where
  "float_gt NaN _ = False"
| "float_gt _ NaN = False"
| "float_gt (Finite x) (Finite y) = (y < x)"
| "float_gt (Finite x) NegInf = True"
| "float_gt (Finite x) PosInf = False"
| "float_gt PosInf PosInf = False"
| "float_gt PosInf _ = True"
| "float_gt NegInf _ = False"

fun float_ge :: "pyfloat \<Rightarrow> pyfloat \<Rightarrow> bool" where
  "float_ge NaN _ = False"
| "float_ge _ NaN = False"
| "float_ge (Finite x) (Finite y) = (y \<le> x)"
| "float_ge (Finite x) NegInf = True"
| "float_ge (Finite x) PosInf = False"
| "float_ge PosInf _ = True"
| "float_ge NegInf NegInf = True"
| "float_ge NegInf _ = False"

definition float_0_0 :: pyfloat where
  "float_0_0 = Finite 0"

definition float_0_6 :: pyfloat where
  "float_0_6 = Finite (5404319552844595 / 9007199254740992)"

definition float_0_4 :: pyfloat where
  "float_0_4 = Finite (3602879701896397 / 9007199254740992)"

text \<open>The values a fact can have: what \<open>analyze\<close> stores in its dictionary.\<close>

datatype pyval =
    VNone
  | VBool bool
  | VInt int
  | VFloat pyfloat
  | VStr string
  | VList "string list"

text \<open>
  The exceptions that occur in the modelled code. \<open>UnicodeEncodeError\<close> is a subclass of
  \<open>ValueError\<close>; no other of these classes is a subclass of another.
\<close>

datatype pyerr =
  ValueError | TypeError | OverflowError | UnboundLocalError | OSError | UnicodeEncodeError

definition ebind :: "pyerr + 'a \<Rightarrow> ('a \<Rightarrow> pyerr + 'b) \<Rightarrow> pyerr + 'b" where
  "ebind m f = (case m of Inl e \<Rightarrow> Inl e | Inr x \<Rightarrow> f x)"

text \<open>
  \<open>re.search(pattern, message, re.IGNORECASE)\<close> on a pattern taken from a pack: it
  finds a match, finds none, raises \<open>re.error\<close>, or raises an exception of another class.
  \<open>re.error\<close> is what the parser of \<open>re\<close> raises for most patterns that it cannot compile;
  for a repetition count of \<open>MAXREPEAT\<close> (4294967295) or more, as in \<open>a{4294967296}\<close>, it
  raises \<open>OverflowError\<close>, which is no subclass of \<open>re.error\<close>.
\<close>

datatype re_result = ReMatch | ReNoMatch | ReError | ReRaises pyerr

text \<open>
  The functions of Python's library that the engine calls and that are no part of the
  repository are parameters of the model. A function that can raise returns an option,
  \<open>None\<close> being the exception named here:
  \<^item> \<open>re_search p s\<close> is \<open>re.search(p, s)\<close> for the fixed patterns of the analyzer: the
    groups of the leftmost match, if there is one;
  \<^item> \<open>re_search_ignorecase p s\<close> is \<open>re.search(p, s, re.IGNORECASE)\<close> for a string \<open>p\<close>;
  \<^item> \<open>get_close_matches w ps n c\<close> and \<open>sequence_ratio a b\<close> are difflib's
    \<open>get_close_matches(w, ps, n=n, cutoff=c)\<close> and \<open>SequenceMatcher(None, a, b).ratio()\<close>;
  \<^item> \<open>int_of_str\<close> is \<open>int(s)\<close> and \<open>float_of_str\<close> is \<open>float(s)\<close> (\<open>ValueError\<close>);
  \<^item> \<open>float_of_int\<close> is \<open>float(i)\<close> (\<open>OverflowError\<close>);
  \<^item> \<open>str_of_int\<close> is \<open>str(i)\<close> (\<open>ValueError\<close> beyond the digit limit), \<open>str_of_float\<close>
    and \<open>str_of_list\<close> are \<open>str\<close> on a float and on a list of strings;
  \<^item> \<open>format_percent x\<close> is \<open>f"{x:.0%}"\<close> and \<open>format_fixed d x\<close> is \<open>f"{x:.{d}f}"\<close>
    (\<open>ValueError\<close> for a precision the format rejects).
\<close>

record runtime =
  re_search :: "string \<Rightarrow> string \<Rightarrow> string list option"
  re_search_ignorecase :: "string \<Rightarrow> string \<Rightarrow> re_result"
  get_close_matches :: "string \<Rightarrow> string list \<Rightarrow> nat \<Rightarrow> pyfloat \<Rightarrow> string list"
  sequence_ratio :: "string \<Rightarrow> string \<Rightarrow> pyfloat"
  int_of_str :: "string \<Rightarrow> int option"
  float_of_str :: "string \<Rightarrow> pyfloat option"
  float_of_int :: "int \<Rightarrow> pyfloat option"
  str_of_int :: "int \<Rightarrow> string option"
  str_of_float :: "pyfloat \<Rightarrow> string"
  str_of_list :: "string list \<Rightarrow> string"
  format_percent :: "pyfloat \<Rightarrow> string"
  format_fixed :: "int \<Rightarrow> pyfloat \<Rightarrow> string option"

text \<open>Group \<open>k\<close> of a match, counted from 1 as \<open>match.group(k)\<close> does.\<close>

definition group :: "string list \<Rightarrow> nat \<Rightarrow> string" where
  "group gs k = (if 0 < k \<and> k \<le> length gs then gs ! (k - 1) else [])"

subsection \<open>String methods\<close>

text \<open>\<open>str.isspace\<close> on one character, which is also what \<open>\s\<close> matches.\<close>

definition py_isspace :: "char \<Rightarrow> bool" where
  "py_isspace c = (let n = (of_char c :: nat) in
     (9 \<le> n \<and> n \<le> 13) \<or> (28 \<le> n \<and> n \<le> 32) \<or> n = 133 \<or> n = 160)"

definition strip :: "string \<Rightarrow> string" where
  "strip s = rev (dropWhile py_isspace (rev (dropWhile py_isspace s)))"

definition lower_char :: "char \<Rightarrow> char" where
  "lower_char c = (let n = (of_char c :: nat) in
     if (65 \<le> n \<and> n \<le> 90) \<or> (192 \<le> n \<and> n \<le> 222 \<and> n \<noteq> 215)
     then char_of (n + 32) else c)"

definition lower :: "string \<Rightarrow> string" where
  "lower s = map lower_char s"

definition startswith :: "string \<Rightarrow> string \<Rightarrow> bool" where
  "startswith s p = prefix p s"

definition endswith :: "string \<Rightarrow> string \<Rightarrow> bool" where
  "endswith s p = suffix p s"

text \<open>
  \<open>split_first sep s\<close> cuts \<open>s\<close> at the first occurrence of \<open>sep\<close>: it is
  \<open>s.split(sep, 1)\<close> when \<open>sep in s\<close>, and \<open>None\<close> when \<open>sep\<close> does not occur.
\<close>

fun split_first :: "string \<Rightarrow> string \<Rightarrow> (string \<times> string) option" where
  "split_first sep [] = (if sep = [] then Some ([], []) else None)"
| "split_first sep (c # cs) =
     (if prefix sep (c # cs) then Some ([], drop (length sep) (c # cs))
      else (case split_first sep cs of
              None \<Rightarrow> None
            | Some (a, b) \<Rightarrow> Some (c # a, b)))"

section \<open>The pack model (packages/loader.py)\<close>

text \<open>
  The dataclasses of the loader, with the types that they declare. The one exception is
  \<open>message_patterns\<close>, declared \<open>List[str]\<close>: \<open>_parse_conditions\<close> copies the list of the
  YAML document as it is, and what \<open>re.search\<close> does with an element depends on whether
  it is a string. So an element is a value, as YAML gives it.
\<close>

record pack_metadata =
  meta_name :: string
  meta_version :: string
  meta_description :: string
  meta_author :: string
  meta_license :: string
  meta_qinter_version :: string
  meta_targets :: "string list"
  meta_tags :: "string list"
  meta_dependencies :: "string list"
  meta_homepage :: "string option"
  meta_repository :: "string option"

record context_condition =
  cc_type :: string
  threshold :: "pyfloat option"
  min_matches :: "int option"
  cc_modules :: "string list option"
  cc_functions :: "string list option"
  cc_extensions :: "string list option"
  inside_function :: "bool option"
  variable :: "string option"
  expected_type :: "string option"
  script :: "string option"

record explanation_conditions =
  cond_exception_type :: string
  message_patterns :: "pyval list"
  context_conditions :: "context_condition list"

record explanation_suggestion =
  template :: string
  sugg_priority :: int
  sugg_condition :: string

record explanation_example =
  ex_id :: string
  ex_description :: string
  ex_code :: string
  ex_condition :: string

record explanation_content =
  title :: string
  description :: string
  suggestions :: "explanation_suggestion list"
  examples :: "explanation_example list"

record explanation =
  exp_id :: string
  priority :: int
  conditions :: explanation_conditions
  content :: explanation_content

record explanation_pack =
  metadata :: pack_metadata
  explanations :: "explanation list"
  file_path :: "string option"

section \<open>The context analyzer (explanations/context_analyzer.py)\<close>

text \<open>
  An exception is seen through \<open>type(exception).__name__\<close>, \<open>str(exception)\<close> and the two
  \<open>isinstance\<close> tests the analyzer makes. The context is the dictionary the interceptor
  captures: a missing key reads as its default, the empty list or dictionary.
\<close>

record exn =
  exc_type_name :: string
  exc_message :: string
  exc_is_TypeError :: bool
  exc_is_ValueError :: bool

record frame =
  frame_filename :: string
  frame_line_number :: int
  frame_function_name :: "string option"
  frame_code_line :: "string option"

record file_context =
  fc_filename :: "string option"
  fc_error_line :: "int option"

record error_context =
  traceback_info :: "frame list"
  file_ctx :: file_context
  local_variables :: "(string \<times> pyval) list"

text \<open>The dictionary \<open>analyze\<close> builds has a fixed set of keys: it is a record.\<close>

record analysis =
  variable_name :: string
  exception_type :: string
  exception_message :: string
  filename :: string
  line_number :: int
  function_name :: string
  available_variables :: "string list"
  imported_modules :: "string list"
  similar_variables :: "string list"
  closest_variable :: "string option"
  similarity_score :: pyfloat
  looks_like_import :: bool
  builtin_typo_detected :: bool
  correct_builtin :: "string option"
  similar_variables_exist :: bool
  object_type :: string
  operation :: string
  type1 :: "string option"
  type2 :: "string option"
  expected :: "int option"
  actual :: "int option"
  bad_value :: string

definition common_modules :: "string list" where
  "common_modules =
    [''requests'', ''pandas'', ''numpy'', ''matplotlib'', ''json'', ''os'', ''sys'',
     ''datetime'', ''math'', ''random'', ''time'', ''urllib'', ''sqlite3'', ''csv'',
     ''pickle'', ''itertools'', ''collections'', ''functools'', ''operator'']"

definition builtin_typos :: "(string \<times> string) list" where
  "builtin_typos =
    [(''lenght'', ''len''), (''lentgh'', ''len''), (''legth'', ''len''),
     (''pirnt'', ''print''), (''prnit'', ''print''), (''prin'', ''print''),
     (''strig'', ''str''), (''strign'', ''str''),
     (''itn'', ''int''), (''itne'', ''int''),
     (''flaot'', ''float''), (''flot'', ''float''),
     (''lsit'', ''list''), (''listst'', ''list''),
     (''dcit'', ''dict''), (''dictionairy'', ''dict'')]"

text \<open>The regular expressions of the analyzer, as the source writes them.\<close>

definition backslash :: string where
  "backslash = [CHR 0x5C]"

definition quote :: string where
  "quote = [CHR 0x27]"

definition pat_name_not_defined :: string where
  "pat_name_not_defined = ''name '([^']+)' is not defined''"

definition pat_not_callable :: string where
  "pat_not_callable = quote @ ''([^']+)' object is not callable''"

definition pat_object :: string where
  "pat_object = quote @ ''([^']+)' object''"

definition pat_operation :: string where
  "pat_operation = ''unsupported operand type'' @ backslash @ ''(s'' @ backslash @ '') for (.+):''"

definition pat_bad_value :: string where
  "pat_bad_value = ''invalid literal for int'' @ backslash @ ''('' @ backslash @ '') with base ''
     @ backslash @ ''d+: '([^']*)'' @ quote"

definition pat_operand_types :: string where
  "pat_operand_types = ''unsupported operand type'' @ backslash @ ''(s'' @ backslash
     @ '') for (.+): '([^']+)' and '([^']+)'' @ quote"

definition pat_not_enough :: string where
  "pat_not_enough = ''not enough values to unpack '' @ backslash @ ''(expected (''
     @ backslash @ ''d+), got ('' @ backslash @ ''d+)'' @ backslash @ '')''"

definition pat_too_many :: string where
  "pat_too_many = ''too many values to unpack '' @ backslash @ ''(expected (''
     @ backslash @ ''d+)'' @ backslash @ '')''"

definition extract_variable_name :: "runtime \<Rightarrow> exn \<Rightarrow> string" where
  "extract_variable_name rt e =
     (case re_search rt pat_name_not_defined (exc_message e) of
        Some gs \<Rightarrow> group gs 1
      | None \<Rightarrow>
         (case re_search rt pat_not_callable (exc_message e) of
            Some gs \<Rightarrow> ''variable_of_type_'' @ group gs 1
          | None \<Rightarrow> ''unknown''))"

definition extract_object_type :: "runtime \<Rightarrow> exn \<Rightarrow> string" where
  "extract_object_type rt e =
     (case re_search rt pat_object (exc_message e) of
        Some gs \<Rightarrow> group gs 1
      | None \<Rightarrow> ''unknown'')"

definition extract_operation :: "runtime \<Rightarrow> exn \<Rightarrow> string" where
  "extract_operation rt e =
     (case re_search rt pat_operation (exc_message e) of
        Some gs \<Rightarrow> strip (group gs 1)
      | None \<Rightarrow> ''operation'')"

definition extract_bad_value :: "runtime \<Rightarrow> exn \<Rightarrow> string" where
  "extract_bad_value rt e =
     (case re_search rt pat_bad_value (exc_message e) of
        Some gs \<Rightarrow> group gs 1
      | None \<Rightarrow> ''value'')"

text \<open>
  The names of the local variables, without those that start with an underscore or have
  fewer than two characters, sorted. The keys of a dictionary are strings here, so the
  \<open>isinstance(name, str)\<close> test of the source is true.
\<close>

definition get_available_variables :: "error_context \<Rightarrow> string list" where
  "get_available_variables ctx =
     sort (filter (\<lambda>name. \<not> startswith name ''_'' \<and> 1 < length name)
                  (map fst (local_variables ctx)))"

definition get_imported_modules :: "error_context \<Rightarrow> string list" where
  "get_imported_modules ctx = []"

definition analyze_variable_similarity :: "runtime \<Rightarrow> analysis \<Rightarrow> analysis" where
  "analyze_variable_similarity rt a =
     (if variable_name a = [] \<or> available_variables a = [] then a
      else
        (let similar = get_close_matches rt (variable_name a) (available_variables a) 5 float_0_4;
             a1 = a\<lparr>similar_variables := similar\<rparr>
         in (case similar of
               [] \<Rightarrow> a1
             | s0 # _ \<Rightarrow>
                 a1\<lparr>closest_variable := Some s0,
                    similar_variables_exist := True,
                    similarity_score := sequence_ratio rt (variable_name a) s0\<rparr>)))"

definition analyze_import_patterns :: "analysis \<Rightarrow> analysis" where
  "analyze_import_patterns a =
     (if lower (variable_name a) \<in> set common_modules
      then a\<lparr>looks_like_import := True\<rparr> else a)"

definition analyze_builtin_typos :: "analysis \<Rightarrow> analysis" where
  "analyze_builtin_typos a =
     (case map_of builtin_typos (lower (variable_name a)) of
        Some b \<Rightarrow> a\<lparr>builtin_typo_detected := True, correct_builtin := Some b\<rparr>
      | None \<Rightarrow> a)"

definition analyze_type_errors :: "runtime \<Rightarrow> analysis \<Rightarrow> exn \<Rightarrow> analysis" where
  "analyze_type_errors rt a e =
     (if \<not> exc_is_TypeError e then a
      else
        (case re_search rt pat_operand_types (exc_message e) of
           Some gs \<Rightarrow>
             a\<lparr>operation := strip (group gs 1),
               type1 := Some (group gs 2),
               type2 := Some (group gs 3)\<rparr>
         | None \<Rightarrow> a))"

text \<open>\<open>int(...)\<close> on a group raises \<open>ValueError\<close> where \<open>int_of_str\<close> is \<open>None\<close>.\<close>

definition py_int :: "runtime \<Rightarrow> string \<Rightarrow> pyerr + int" where
  "py_int rt s = (case int_of_str rt s of None \<Rightarrow> Inl ValueError | Some i \<Rightarrow> Inr i)"

definition analyze_value_errors :: "runtime \<Rightarrow> analysis \<Rightarrow> exn \<Rightarrow> pyerr + analysis" where
  "analyze_value_errors rt a e =
     (if \<not> exc_is_ValueError e then Inr a
      else
        ebind
          (case re_search rt pat_not_enough (exc_message e) of
             Some gs \<Rightarrow>
               ebind (py_int rt (group gs 1)) (\<lambda>x.
               ebind (py_int rt (group gs 2)) (\<lambda>y.
                 Inr (a\<lparr>expected := Some x, actual := Some y\<rparr>)))
           | None \<Rightarrow> Inr a)
          (\<lambda>a1.
            (case re_search rt pat_too_many (exc_message e) of
               Some gs \<Rightarrow>
                 ebind (py_int rt (group gs 1)) (\<lambda>x. Inr (a1\<lparr>expected := Some x\<rparr>))
             | None \<Rightarrow> Inr a1)))"

definition initial_analysis :: "runtime \<Rightarrow> exn \<Rightarrow> error_context \<Rightarrow> analysis" where
  "initial_analysis rt e ctx =
     \<lparr>variable_name = extract_variable_name rt e,
      exception_type = exc_type_name e,
      exception_message = exc_message e,
      filename = (case fc_filename (file_ctx ctx) of Some f \<Rightarrow> f | None \<Rightarrow> ''interactive''),
      line_number = (case fc_error_line (file_ctx ctx) of Some n \<Rightarrow> n | None \<Rightarrow> 0),
      function_name =
        (if traceback_info ctx \<noteq> []
         then (case frame_function_name (last (traceback_info ctx)) of
                 Some f \<Rightarrow> f | None \<Rightarrow> ''module'')
         else ''module''),
      available_variables = get_available_variables ctx,
      imported_modules = get_imported_modules ctx,
      similar_variables = [],
      closest_variable = None,
      similarity_score = float_0_0,
      looks_like_import = False,
      builtin_typo_detected = False,
      correct_builtin = None,
      similar_variables_exist = False,
      object_type = extract_object_type rt e,
      operation = extract_operation rt e,
      type1 = None,
      type2 = None,
      expected = None,
      actual = None,
      bad_value = extract_bad_value rt e\<rparr>"

definition analyze :: "runtime \<Rightarrow> exn \<Rightarrow> error_context \<Rightarrow> pyerr + analysis" where
  "analyze rt e ctx =
     (let a0 = initial_analysis rt e ctx;
          a1 = analyze_variable_similarity rt a0;
          a2 = analyze_import_patterns a1;
          a3 = analyze_builtin_typos a2;
          a4 = analyze_type_errors rt a3 e
      in analyze_value_errors rt a4 e)"

text \<open>
  \<open>x or d\<close> on an optional number: the default replaces \<open>None\<close> and also zero, which
  Python counts as false.
\<close>

definition float_or :: "pyfloat option \<Rightarrow> pyfloat \<Rightarrow> pyfloat" where
  "float_or x d = (case x of None \<Rightarrow> d | Some v \<Rightarrow> if v = Finite 0 then d else v)"

definition int_or :: "int option \<Rightarrow> int \<Rightarrow> int" where
  "int_or x d = (case x of None \<Rightarrow> d | Some v \<Rightarrow> if v = 0 then d else v)"

text \<open>\<open>not xs\<close> on an optional list: true for \<open>None\<close> and for the empty list.\<close>

definition falsy_list :: "'a list option \<Rightarrow> bool" where
  "falsy_list x = (case x of None \<Rightarrow> True | Some xs \<Rightarrow> xs = [])"

definition check_condition :: "context_condition \<Rightarrow> analysis \<Rightarrow> bool" where
  "check_condition c a =
     (if cc_type c = ''variable_similarity'' then
        (let t = float_or (threshold c) float_0_6;
             m = int_or (min_matches c) 1
         in float_ge (similarity_score a) t \<and> m \<le> int (length (similar_variables a)))
      else if cc_type c = ''import_pattern'' then
        (if falsy_list (cc_modules c) then looks_like_import a
         else looks_like_import a \<and> variable_name a \<in> set (the (cc_modules c)))
      else if cc_type c = ''builtin_typo'' then
        (if falsy_list (cc_functions c) then builtin_typo_detected a
         else builtin_typo_detected a
              \<and> (case correct_builtin a of
                    None \<Rightarrow> False
                  | Some b \<Rightarrow> b \<in> set (the (cc_functions c))))
      else if cc_type c = ''file_extension'' then
        (if \<not> falsy_list (cc_extensions c)
         then (\<exists>ext \<in> set (the (cc_extensions c)). endswith (filename a) ext)
         else True)
      else if cc_type c = ''function_context'' then
        inside_function c = Some (function_name a \<noteq> ''module'')
      else True)"

section \<open>The pattern matcher (explanations/pattern_matcher.py)\<close>

text \<open>
  \<open>list.sort(key=f, reverse=True)\<close>: Python reverses the list, sorts it with its stable
  sort and reverses the result, so that elements with equal keys keep their order.
\<close>

definition sort_key_reverse :: "('a \<Rightarrow> int) \<Rightarrow> 'a list \<Rightarrow> 'a list" where
  "sort_key_reverse f xs = rev (sort_key f (rev xs))"

text \<open>
  The state of the matcher is its list \<open>loaded_explanations\<close>; \<open>load_explanations\<close>
  clears it and returns the new one.
\<close>

definition load_explanations ::
  "explanation_pack list \<Rightarrow> (explanation \<times> explanation_pack) list" where
  "load_explanations packs =
     sort_key_reverse (\<lambda>x. priority (fst x))
       (concat (map (\<lambda>pack. map (\<lambda>e. (e, pack)) (explanations pack)) packs))"

text \<open>
  \<open>re.search(pattern, message, re.IGNORECASE)\<close> on an element of \<open>message_patterns\<close>:
  for a pattern that is no string (and no compiled pattern, which YAML does not give)
  \<open>re.search\<close> raises \<open>TypeError\<close>.
\<close>

definition search_pattern :: "runtime \<Rightarrow> pyval \<Rightarrow> string \<Rightarrow> re_result" where
  "search_pattern rt pattern message =
     (case pattern of
        VStr p \<Rightarrow> re_search_ignorecase rt p message
      | VNone \<Rightarrow> ReRaises TypeError
      | VBool b \<Rightarrow> ReRaises TypeError
      | VInt i \<Rightarrow> ReRaises TypeError
      | VFloat x \<Rightarrow> ReRaises TypeError
      | VList xs \<Rightarrow> ReRaises TypeError)"

text \<open>
  \<open>_matches_message_patterns\<close>. The \<open>try\<close> statement has the one handler
  \<open>except re.error: continue\<close>; an exception of another class leaves the function.
\<close>

fun matches_message_patterns :: "runtime \<Rightarrow> pyval list \<Rightarrow> string \<Rightarrow> pyerr + bool" where
  "matches_message_patterns rt [] message = Inr False"
| "matches_message_patterns rt (p # ps) message =
     (case search_pattern rt p message of
        ReMatch \<Rightarrow> Inr True
      | ReNoMatch \<Rightarrow> matches_message_patterns rt ps message
      | ReError \<Rightarrow> matches_message_patterns rt ps message
      | ReRaises err \<Rightarrow> Inl err)"

fun matches_context_conditions :: "context_condition list \<Rightarrow> analysis \<Rightarrow> bool" where
  "matches_context_conditions [] a = True"
| "matches_context_conditions (c # cs) a =
     (if \<not> check_condition c a then False else matches_context_conditions cs a)"

text \<open>
  \<open>_matches_explanation\<close> has no \<open>try\<close> statement: an exception of the message stage
  leaves it. The type test comes first, so the patterns of a rule for another exception
  type are not searched.
\<close>

definition matches_explanation ::
  "runtime \<Rightarrow> explanation \<Rightarrow> string \<Rightarrow> string \<Rightarrow> analysis \<Rightarrow> pyerr + bool" where
  "matches_explanation rt ex etype emessage a =
     (if cond_exception_type (conditions ex) \<noteq> etype then Inr False
      else
        ebind (matches_message_patterns rt (message_patterns (conditions ex)) emessage)
          (\<lambda>message_ok.
             if \<not> message_ok then Inr False
             else if context_conditions (conditions ex) \<noteq> []
                     \<and> \<not> matches_context_conditions (context_conditions (conditions ex)) a
             then Inr False
             else Inr True))"

text \<open>
  The loop of \<open>find_best_explanation\<close> over the loaded rules, which returns at the first
  rule that matches, and the function itself. Neither it nor
  \<open>find_all_matching_explanations\<close> has a \<open>try\<close> statement: an exception of \<open>analyze\<close> or
  of a rule's test leaves the function.
\<close>

fun first_match ::
  "runtime \<Rightarrow> (explanation \<times> explanation_pack) list \<Rightarrow> string \<Rightarrow> string \<Rightarrow> analysis
   \<Rightarrow> pyerr + (explanation \<times> explanation_pack \<times> analysis) option" where
  "first_match rt [] etype emessage a = Inr None"
| "first_match rt ((ex, pack) # rest) etype emessage a =
     ebind (matches_explanation rt ex etype emessage a) (\<lambda>ok.
       if ok then Inr (Some (ex, pack, a))
       else first_match rt rest etype emessage a)"

definition find_best_explanation ::
  "runtime \<Rightarrow> (explanation \<times> explanation_pack) list \<Rightarrow> exn \<Rightarrow> error_context
   \<Rightarrow> pyerr + (explanation \<times> explanation_pack \<times> analysis) option" where
  "find_best_explanation rt loaded e ctx =
     ebind (analyze rt e ctx) (\<lambda>a.
       first_match rt loaded (exc_type_name e) (exc_message e) a)"

fun all_matches ::
  "runtime \<Rightarrow> (explanation \<times> explanation_pack) list \<Rightarrow> string \<Rightarrow> string \<Rightarrow> analysis
   \<Rightarrow> pyerr + (explanation \<times> explanation_pack \<times> analysis) list" where
  "all_matches rt [] etype emessage a = Inr []"
| "all_matches rt ((ex, pack) # rest) etype emessage a =
     ebind (matches_explanation rt ex etype emessage a) (\<lambda>ok.
       ebind (all_matches rt rest etype emessage a) (\<lambda>matches.
         Inr (if ok then (ex, pack, a) # matches else matches)))"

definition find_all_matching_explanations ::
  "runtime \<Rightarrow> (explanation \<times> explanation_pack) list \<Rightarrow> exn \<Rightarrow> error_context
   \<Rightarrow> pyerr + (explanation \<times> explanation_pack \<times> analysis) list" where
  "find_all_matching_explanations rt loaded e ctx =
     ebind (analyze rt e ctx) (\<lambda>a.
       all_matches rt loaded (exc_type_name e) (exc_message e) a)"

section \<open>The template renderer (explanations/template_renderer.py)\<close>

text \<open>The renderer reads its facts from a dictionary, by name.\<close>

type_synonym factset = "string \<rightharpoonup> pyval"

text \<open>
  \<open>float(v)\<close>. No float literal has a brace in it, so on a string with a brace \<open>float\<close>
  raises \<open>ValueError\<close>, whatever \<open>float_of_str\<close> is.
\<close>

definition py_float :: "runtime \<Rightarrow> pyval \<Rightarrow> pyerr + pyfloat" where
  "py_float rt v =
     (case v of
        VNone \<Rightarrow> Inl TypeError
      | VBool b \<Rightarrow> Inr (Finite (if b then 1 else 0))
      | VInt i \<Rightarrow> (case float_of_int rt i of None \<Rightarrow> Inl OverflowError | Some x \<Rightarrow> Inr x)
      | VFloat x \<Rightarrow> Inr x
      | VStr s \<Rightarrow>
          (if CHR ''{'' \<in> set s then Inl ValueError
           else (case float_of_str rt s of None \<Rightarrow> Inl ValueError | Some x \<Rightarrow> Inr x))
      | VList xs \<Rightarrow> Inl TypeError)"

definition py_str :: "runtime \<Rightarrow> pyval \<Rightarrow> pyerr + string" where
  "py_str rt v =
     (case v of
        VNone \<Rightarrow> Inr ''None''
      | VBool b \<Rightarrow> Inr (if b then ''True'' else ''False'')
      | VInt i \<Rightarrow> (case str_of_int rt i of None \<Rightarrow> Inl ValueError | Some s \<Rightarrow> Inr s)
      | VFloat x \<Rightarrow> Inr (str_of_float rt x)
      | VStr s \<Rightarrow> Inr s
      | VList xs \<Rightarrow> Inr (str_of_list rt xs))"

text \<open>
  \<open>except (ValueError, TypeError)\<close>: the handler runs for these two and for the subclass
  \<open>UnicodeEncodeError\<close> of the first, others go on.
\<close>

definition except_value_type :: "pyerr + 'a \<Rightarrow> (pyerr + 'a) \<Rightarrow> pyerr + 'a" where
  "except_value_type body handler =
     (case body of
        Inl e \<Rightarrow>
          if e = ValueError \<or> e = UnicodeEncodeError \<or> e = TypeError then handler else Inl e
      | Inr x \<Rightarrow> Inr x)"

text \<open>
  The first test of \<open>_evaluate_condition\<close>, on the value of a fact named by the whole
  condition: the result it returns, or \<open>None\<close> when no branch returns.
\<close>

definition direct_check :: "pyval \<Rightarrow> bool option" where
  "direct_check v =
     (case v of
        VBool b \<Rightarrow> Some b
      | VList xs \<Rightarrow> Some (0 < length xs)
      | VStr s \<Rightarrow> Some (0 < length s)
      | VInt i \<Rightarrow> Some (0 < i)
      | VFloat x \<Rightarrow> Some (float_gt x (Finite 0))
      | VNone \<Rightarrow> None)"

definition evaluate_condition :: "runtime \<Rightarrow> string \<Rightarrow> factset \<Rightarrow> pyerr + bool" where
  "evaluate_condition rt condition facts =
     (case (case facts condition of None \<Rightarrow> None | Some v \<Rightarrow> direct_check v) of
        Some b \<Rightarrow> Inr b
      | None \<Rightarrow>
         (case split_first '' > '' condition of
            Some (left, right) \<Rightarrow>
              (let left_val = (case facts (strip left) of None \<Rightarrow> VInt 0 | Some v \<Rightarrow> v)
               in except_value_type
                    (ebind (py_float rt (VStr (strip right))) (\<lambda>right_val.
                     ebind (py_float rt left_val) (\<lambda>l.
                       Inr (float_gt l right_val))))
                    (Inr False))
          | None \<Rightarrow> Inr False))"

definition unknown_variable :: "string \<Rightarrow> string" where
  "unknown_variable var_name = ''{unknown_variable_'' @ var_name @ ''}''"

definition lookup_or_unknown :: "factset \<Rightarrow> string \<Rightarrow> pyval" where
  "lookup_or_unknown facts var_name =
     (case facts var_name of None \<Rightarrow> VStr (unknown_variable var_name) | Some v \<Rightarrow> v)"

text \<open>The callback of \<open>_substitute_variables\<close>, on the text of group 1.\<close>

definition replace_var :: "runtime \<Rightarrow> factset \<Rightarrow> string \<Rightarrow> pyerr + string" where
  "replace_var rt facts g =
     (case split_first '':'' g of
        Some (var_name, format_spec) \<Rightarrow>
          (let val = lookup_or_unknown facts var_name
           in except_value_type
                (if format_spec = ''.0%'' then
                   ebind (py_float rt val) (\<lambda>x. Inr (format_percent rt x))
                 else if startswith format_spec ''.'' \<and> endswith format_spec ''f'' then
                   ebind (py_int rt (butlast (tl format_spec))) (\<lambda>decimals.
                   ebind (py_float rt val) (\<lambda>x.
                     (case format_fixed rt decimals x of
                        None \<Rightarrow> Inl ValueError
                      | Some s \<Rightarrow> Inr s)))
                 else py_str rt val)
                (py_str rt val))
      | None \<Rightarrow> py_str rt (lookup_or_unknown facts g))"

text \<open>
  \<open>re.sub\<close> with the pattern \<open>\{([^}]+)\}\<close>: the matches are found from left to right
  and do not overlap. At an opening brace the pattern matches when at least one character
  other than a closing brace follows and a closing brace ends the run; group 1 is the run.
  Elsewhere the character is copied.
\<close>

datatype token = Lit char | Var string

function scan_variables :: "string \<Rightarrow> token list" where
  "scan_variables [] = []"
| "scan_variables (c # cs) =
     (if c = CHR ''{''
         \<and> takeWhile (\<lambda>x. x \<noteq> CHR ''}'') cs \<noteq> []
         \<and> dropWhile (\<lambda>x. x \<noteq> CHR ''}'') cs \<noteq> []
      then Var (takeWhile (\<lambda>x. x \<noteq> CHR ''}'') cs)
             # scan_variables (tl (dropWhile (\<lambda>x. x \<noteq> CHR ''}'') cs))
      else Lit c # scan_variables cs)"
  by pat_completeness auto
termination
proof (relation "measure length")
  fix c :: char and cs :: string
  have "length (tl (dropWhile (\<lambda>x. x \<noteq> CHR ''}'') cs))
          \<le> length (dropWhile (\<lambda>x. x \<noteq> CHR ''}'') cs)"
    by simp
  also have "\<dots> \<le> length cs"
    by (rule length_dropWhile_le)
  finally show "(tl (dropWhile (\<lambda>x. x \<noteq> CHR ''}'') cs), c # cs) \<in> measure length"
    by simp
qed simp_all

text \<open>The callback runs on each match in turn; the first exception ends the pass.\<close>

fun substitute_tokens :: "runtime \<Rightarrow> factset \<Rightarrow> token list \<Rightarrow> pyerr + string" where
  "substitute_tokens rt facts [] = Inr []"
| "substitute_tokens rt facts (Lit c # ts) =
     ebind (substitute_tokens rt facts ts) (\<lambda>r. Inr (c # r))"
| "substitute_tokens rt facts (Var g # ts) =
     ebind (replace_var rt facts g) (\<lambda>s.
     ebind (substitute_tokens rt facts ts) (\<lambda>r. Inr (s @ r)))"

definition substitute_variables :: "runtime \<Rightarrow> string \<Rightarrow> factset \<Rightarrow> pyerr + string" where
  "substitute_variables rt tmpl facts =
     substitute_tokens rt facts (scan_variables tmpl)"

text \<open>
  The head \<open>\{if\s+([^}]+)\}\<close> of both block patterns, tried at the start of \<open>s\<close>: group 1
  and the text after the closing brace. \<open>\s+\<close> takes all the white space after \<open>{if\<close>;
  when a closing brace follows at once it gives one white-space character back, which
  is then group 1.
\<close>

definition match_if_header :: "string \<Rightarrow> (string \<times> string) option" where
  "match_if_header s =
     (if \<not> prefix ''{if'' s then None
      else
        (let h = drop 3 s;
             ws = takeWhile py_isspace h;
             r = dropWhile py_isspace h;
             g = takeWhile (\<lambda>x. x \<noteq> CHR ''}'') r;
             after = dropWhile (\<lambda>x. x \<noteq> CHR ''}'') r
         in if ws = [] \<or> after = [] then None
            else if g \<noteq> [] then Some (g, tl after)
            else if 2 \<le> length ws then Some ([last ws], tl after)
            else None))"

text \<open>
  \<open>(.*?)\{else\}(.*?)\{endif\}\<close> after the head, with \<open>re.DOTALL\<close>: the shortest texts,
  so up to the first \<open>{else}\<close> and from there up to the first \<open>{endif}\<close>.
\<close>

definition match_if_else :: "string \<Rightarrow> (string \<times> string \<times> string \<times> string) option" where
  "match_if_else s =
     (case match_if_header s of
        None \<Rightarrow> None
      | Some (g, body) \<Rightarrow>
         (case split_first ''{else}'' body of
            None \<Rightarrow> None
          | Some (if_content, post) \<Rightarrow>
             (case split_first ''{endif}'' post of
                None \<Rightarrow> None
              | Some (else_content, rest) \<Rightarrow> Some (g, if_content, else_content, rest))))"

definition match_if :: "string \<Rightarrow> (string \<times> string \<times> string) option" where
  "match_if s =
     (case match_if_header s of
        None \<Rightarrow> None
      | Some (g, body) \<Rightarrow>
         (case split_first ''{endif}'' body of
            None \<Rightarrow> None
          | Some (if_content, rest) \<Rightarrow> Some (g, if_content, rest)))"

lemma split_first_length: "split_first sep s = Some (a, b) \<Longrightarrow> length b \<le> length s"
  by (induction s arbitrary: a b) (auto split: if_splits option.splits)

lemma match_if_header_length:
  assumes m: "match_if_header s = Some (g, body)"
  shows "length body < length s"
proof -
  let ?h = "drop 3 s"
  let ?r = "dropWhile py_isspace ?h"
  let ?after = "dropWhile (\<lambda>x. x \<noteq> CHR ''}'') ?r"
  from m have b: "body = tl ?after" and ne: "?after \<noteq> []"
    by (auto simp: match_if_header_def Let_def split: if_splits)
  have "length ?after \<le> length ?r" by (rule length_dropWhile_le)
  also have "\<dots> \<le> length ?h" by (rule length_dropWhile_le)
  finally have "length ?after \<le> length s" by simp
  moreover from ne have "length (tl ?after) < length ?after" by (cases ?after) auto
  ultimately show ?thesis using b by simp
qed

lemma match_if_else_length:
  "match_if_else s = Some (g, a, b, rest) \<Longrightarrow> length rest < length s"
  unfolding match_if_else_def
  by (auto split: option.splits dest!: split_first_length match_if_header_length)

lemma match_if_length: "match_if s = Some (g, a, rest) \<Longrightarrow> length rest < length s"
  unfolding match_if_def
  by (auto split: option.splits dest!: split_first_length match_if_header_length)

datatype block = Plain char | IfElseBlock string string string | IfBlock string string

function scan_if_else :: "string \<Rightarrow> block list" where
  "scan_if_else [] = []"
| "scan_if_else (c # cs) =
     (case match_if_else (c # cs) of
        Some (g, a, b, rest) \<Rightarrow> IfElseBlock g a b # scan_if_else rest
      | None \<Rightarrow> Plain c # scan_if_else cs)"
  by pat_completeness auto
termination
  by (relation "measure length") (auto dest: match_if_else_length)

function scan_if :: "string \<Rightarrow> block list" where
  "scan_if [] = []"
| "scan_if (c # cs) =
     (case match_if (c # cs) of
        Some (g, a, rest) \<Rightarrow> IfBlock g a # scan_if rest
      | None \<Rightarrow> Plain c # scan_if cs)"
  by pat_completeness auto
termination
  by (relation "measure length") (auto dest: match_if_length)

text \<open>
  The callbacks \<open>replace_if_else\<close> and \<open>replace_if\<close>: the condition is group 1 stripped.
\<close>

fun expand_blocks :: "runtime \<Rightarrow> factset \<Rightarrow> block list \<Rightarrow> pyerr + string" where
  "expand_blocks rt facts [] = Inr []"
| "expand_blocks rt facts (Plain c # bs) =
     ebind (expand_blocks rt facts bs) (\<lambda>r. Inr (c # r))"
| "expand_blocks rt facts (IfElseBlock g if_content else_content # bs) =
     ebind (evaluate_condition rt (strip g) facts) (\<lambda>ok.
     ebind (expand_blocks rt facts bs) (\<lambda>r.
       Inr ((if ok then if_content else else_content) @ r)))"
| "expand_blocks rt facts (IfBlock g if_content # bs) =
     ebind (evaluate_condition rt (strip g) facts) (\<lambda>ok.
     ebind (expand_blocks rt facts bs) (\<lambda>r.
       Inr ((if ok then if_content else []) @ r)))"

definition handle_conditional_blocks :: "runtime \<Rightarrow> string \<Rightarrow> factset \<Rightarrow> pyerr + string" where
  "handle_conditional_blocks rt tmpl facts =
     ebind (expand_blocks rt facts (scan_if_else tmpl)) (\<lambda>t1.
       expand_blocks rt facts (scan_if t1))"

definition render_template :: "runtime \<Rightarrow> string \<Rightarrow> factset \<Rightarrow> pyerr + string" where
  "render_template rt tmpl facts =
     (if tmpl = [] then Inr []
      else
        ebind (handle_conditional_blocks rt tmpl facts) (\<lambda>rendered.
        ebind (substitute_variables rt rendered facts) (\<lambda>rendered'.
          Inr (strip rendered'))))"

definition should_include_item :: "runtime \<Rightarrow> string \<Rightarrow> factset \<Rightarrow> pyerr + bool" where
  "should_include_item rt condition facts =
     (if condition = ''always'' then Inr True
      else evaluate_condition rt condition facts)"

text \<open>
  \<open>_render_suggestions\<close> has a first loop whose list it does not return, then the
  list comprehension, the sort by the suggestion's priority and the filter on the text.
\<close>

fun rendered_suggestions_loop ::
  "runtime \<Rightarrow> factset \<Rightarrow> explanation_suggestion list \<Rightarrow> pyerr + string list" where
  "rendered_suggestions_loop rt facts [] = Inr []"
| "rendered_suggestions_loop rt facts (s # ss) =
     ebind (should_include_item rt (sugg_condition s) facts) (\<lambda>inc.
       if \<not> inc then rendered_suggestions_loop rt facts ss
       else
         ebind (render_template rt (template s) facts) (\<lambda>rendered_text.
         ebind (rendered_suggestions_loop rt facts ss) (\<lambda>r.
           Inr (if rendered_text \<noteq> [] then rendered_text # r else r))))"

fun suggestions_with_priority ::
  "runtime \<Rightarrow> factset \<Rightarrow> explanation_suggestion list
   \<Rightarrow> pyerr + (explanation_suggestion \<times> string) list" where
  "suggestions_with_priority rt facts [] = Inr []"
| "suggestions_with_priority rt facts (s # ss) =
     ebind (should_include_item rt (sugg_condition s) facts) (\<lambda>inc.
       if inc then
         ebind (render_template rt (template s) facts) (\<lambda>text.
         ebind (suggestions_with_priority rt facts ss) (\<lambda>r. Inr ((s, text) # r)))
       else suggestions_with_priority rt facts ss)"

definition render_suggestions ::
  "runtime \<Rightarrow> explanation_suggestion list \<Rightarrow> factset \<Rightarrow> pyerr + string list" where
  "render_suggestions rt suggs facts =
     ebind (rendered_suggestions_loop rt facts suggs) (\<lambda>rendered_suggestions.
     ebind (suggestions_with_priority rt facts suggs) (\<lambda>with_priority.
       Inr (filter (\<lambda>text. text \<noteq> [])
              (map snd (sort_key (\<lambda>x. sugg_priority (fst x)) with_priority)))))"

record rendered_example =
  re_description :: string
  re_code :: string
  re_id :: string

fun render_examples ::
  "runtime \<Rightarrow> explanation_example list \<Rightarrow> factset \<Rightarrow> pyerr + rendered_example list" where
  "render_examples rt [] facts = Inr []"
| "render_examples rt (x # xs) facts =
     ebind (should_include_item rt (ex_condition x) facts) (\<lambda>inc.
       if \<not> inc then render_examples rt xs facts
       else
         ebind (render_template rt (ex_description x) facts) (\<lambda>rendered_description.
         ebind (render_template rt (ex_code x) facts) (\<lambda>rendered_code.
         ebind (render_examples rt xs facts) (\<lambda>r.
           Inr (if rendered_description \<noteq> [] \<and> rendered_code \<noteq> []
                then \<lparr>re_description = rendered_description,
                      re_code = rendered_code,
                      re_id = ex_id x\<rparr> # r
                else r)))))"

record rendered_metadata =
  explanation_id :: string
  md_priority :: int
  pack_name :: "string option"
  pack_version :: "string option"
  pack_author :: "string option"

record rendered =
  r_title :: string
  r_explanation :: string
  r_suggestions :: "string list"
  r_examples :: "rendered_example list"
  r_metadata :: rendered_metadata

definition render_explanation :: "runtime \<Rightarrow> explanation \<Rightarrow> factset \<Rightarrow> pyerr + rendered" where
  "render_explanation rt ex facts =
     ebind (render_template rt (title (content ex)) facts) (\<lambda>t.
     ebind (render_template rt (description (content ex)) facts) (\<lambda>d.
     ebind (render_suggestions rt (suggestions (content ex)) facts) (\<lambda>ss.
     ebind (render_examples rt (examples (content ex)) facts) (\<lambda>xs.
       Inr \<lparr>r_title = t,
            r_explanation = d,
            r_suggestions = ss,
            r_examples = xs,
            r_metadata = \<lparr>explanation_id = exp_id ex,
                          md_priority = priority ex,
                          pack_name = None,
                          pack_version = None,
                          pack_author = None\<rparr>\<rparr>))))"

section \<open>The engine facade (explanations/engine.py)\<close>

text \<open>The dictionary that \<open>analyze\<close> returns, as the renderer reads it.\<close>

definition opt_str :: "string option \<Rightarrow> pyval" where
  "opt_str x = (case x of None \<Rightarrow> VNone | Some s \<Rightarrow> VStr s)"

definition opt_int :: "int option \<Rightarrow> pyval" where
  "opt_int x = (case x of None \<Rightarrow> VNone | Some i \<Rightarrow> VInt i)"

definition as_dict :: "analysis \<Rightarrow> factset" where
  "as_dict a = map_of
     [(''variable_name'', VStr (variable_name a)),
      (''exception_type'', VStr (exception_type a)),
      (''exception_message'', VStr (exception_message a)),
      (''filename'', VStr (filename a)),
      (''line_number'', VInt (line_number a)),
      (''function_name'', VStr (function_name a)),
      (''available_variables'', VList (available_variables a)),
      (''imported_modules'', VList (imported_modules a)),
      (''similar_variables'', VList (similar_variables a)),
      (''closest_variable'', opt_str (closest_variable a)),
      (''similarity_score'', VFloat (similarity_score a)),
      (''looks_like_import'', VBool (looks_like_import a)),
      (''builtin_typo_detected'', VBool (builtin_typo_detected a)),
      (''correct_builtin'', opt_str (correct_builtin a)),
      (''similar_variables_exist'', VBool (similar_variables_exist a)),
      (''object_type'', VStr (object_type a)),
      (''operation'', VStr (operation a)),
      (''type1'', opt_str (type1 a)),
      (''type2'', opt_str (type2 a)),
      (''expected'', opt_int (expected a)),
      (''actual'', opt_int (actual a)),
      (''bad_value'', VStr (bad_value a))]"

text \<open>
  The four lines that the engine prints: the warning of \<open>initialize\<close> when there is no
  core pack (line 34), its warning when there is no pack at all (line 50), its report of
  the numbers of core packs, user packs and rules loaded (line 60), and the warning of
  the \<open>except\<close> handler of \<open>explain\<close> with the exception caught (line 100).
\<close>

datatype console_line =
    NoCorePacksWarning
  | NoPacksWarning
  | LoadedReport nat nat nat
  | ExplanationError pyerr

text \<open>
  What the engine reads from and writes to its surroundings:
  \<^item> the result of \<open>load_core_packs()\<close>;
  \<^item> the result of \<open>_get_packages_directory()\<close> followed by \<open>exists()\<close> (the import of the
    manager and the \<open>mkdir\<close> can raise);
  \<^item> the result of \<open>load_packs_from_directory(packages_dir)\<close>;
  \<^item> \<open>print_line l\<close> is the exception that \<open>print\<close> raises on the line \<open>l\<close>, \<open>None\<close> when it
    returns. Each of the four lines has a character outside Latin-1 (U+26A0 or U+2705)
    and \<open>sys.stdout\<close> encodes strictly: where its encoding is ASCII or cp1252, \<open>print\<close>
    raises \<open>UnicodeEncodeError\<close>.
\<close>

record environment =
  load_core_packs :: "pyerr + explanation_pack list"
  packages_dir_exists :: "pyerr + bool"
  load_user_packs :: "pyerr + explanation_pack list"
  print_line :: "console_line \<Rightarrow> pyerr option"

record engine =
  initialized :: bool
  loaded_explanations :: "(explanation \<times> explanation_pack) list"

text \<open>
  \<open>initialize\<close>: the exception that leaves the call, if any, and the engine after the
  call. When the packages directory does not exist, \<open>all_packs\<close> has no value at the call
  of \<open>load_explanations\<close>: Python raises \<open>UnboundLocalError\<close>. The report of line 60 is
  printed after the rules are loaded and \<open>_initialized\<close> is set: when that \<open>print\<close> raises,
  the engine is initialized all the same.
\<close>

definition initialize :: "environment \<Rightarrow> engine \<Rightarrow> pyerr option \<times> engine" where
  "initialize env eng =
     (if initialized eng then (None, eng)
      else
        (case load_core_packs env of
           Inl err \<Rightarrow> (Some err, eng)
         | Inr core_packs \<Rightarrow>
             if core_packs = [] then (print_line env NoCorePacksWarning, eng)
             else
               (case packages_dir_exists env of
                  Inl err \<Rightarrow> (Some err, eng)
                | Inr dir_exists \<Rightarrow>
                    if dir_exists then
                      (case load_user_packs env of
                         Inl err \<Rightarrow> (Some err, eng)
                       | Inr user_packs \<Rightarrow>
                           (let all_packs = core_packs @ user_packs
                            in if all_packs = [] then (print_line env NoPacksWarning, eng)
                               else
                                 (let eng' = eng\<lparr>loaded_explanations :=
                                                     load_explanations all_packs,
                                                   initialized := True\<rparr>
                                  in (print_line env
                                        (LoadedReport (length core_packs) (length user_packs)
                                           (length (loaded_explanations eng'))),
                                      eng'))))
                    else (Some UnboundLocalError, eng))))"

text \<open>The body of the \<open>try\<close> statement of \<open>explain\<close>.\<close>

definition explain_body ::
  "runtime \<Rightarrow> engine \<Rightarrow> exn \<Rightarrow> error_context \<Rightarrow> pyerr + rendered option" where
  "explain_body rt eng e ctx =
     ebind (find_best_explanation rt (loaded_explanations eng) e ctx) (\<lambda>match_result.
       (case match_result of
          None \<Rightarrow> Inr None
        | Some (ex, pack, a) \<Rightarrow>
            ebind (render_explanation rt ex (as_dict a)) (\<lambda>r.
              Inr (Some (r\<lparr>r_metadata := (r_metadata r)
                      \<lparr>pack_name := Some (meta_name (metadata pack)),
                       pack_version := Some (meta_version (metadata pack)),
                       pack_author := Some (meta_author (metadata pack))\<rparr>\<rparr>)))))"

text \<open>
  \<open>explain\<close>: the result, or the exception that leaves the call, and the engine after
  the call. The call of \<open>initialize\<close> stands before the \<open>try\<close> statement. \<open>except Exception\<close>
  catches every exception of the body (each class of \<open>pyerr\<close> is a subclass of
  \<open>Exception\<close>); its handler prints the warning of line 100 and then returns \<open>None\<close>, so
  an exception of that \<open>print\<close> leaves \<open>explain\<close>.
\<close>

definition explain ::
  "runtime \<Rightarrow> environment \<Rightarrow> engine \<Rightarrow> exn \<Rightarrow> error_context
   \<Rightarrow> (pyerr + rendered option) \<times> engine" where
  "explain rt env eng e ctx =
     (case (if \<not> initialized eng then initialize env eng else (None, eng)) of
        (Some err, eng') \<Rightarrow> (Inl err, eng')
      | (None, eng') \<Rightarrow>
          (case explain_body rt eng' e ctx of
             Inr r \<Rightarrow> (Inr r, eng')
           | Inl err \<Rightarrow>
               (case print_line env (ExplanationError err) of
                  None \<Rightarrow> (Inr None, eng')
                | Some print_err \<Rightarrow> (Inl print_err, eng'))))"

section \<open>Examples\<close>

text \<open>
  Three runs. A \<open>NameError\<close> for the name \<open>lst\<close>, raised in a frame whose local
  variables are \<open>lst2\<close>, \<open>other\<close>, \<open>list_of_items\<close>, \<open>_tmp\<close> and \<open>x\<close>. A \<open>ValueError\<close>
  whose message has an expected count of 400 digits, which \<open>int\<close> reads and \<open>float\<close>
  rejects with \<open>OverflowError\<close>. A \<open>ValueError\<close> whose message has an expected count of
  5000 digits, which \<open>int\<close> rejects with \<open>ValueError\<close>: its limit is 4300 digits.
  \<open>example_runtime\<close> gives what Python's library returns on the arguments that these
  runs pass to it; it is not used on others. \<open>get_close_matches\<close> keeps \<open>lst2\<close> alone,
  whose ratio to \<open>lst\<close> is the double nearest to 6/7; \<open>float("0.8")\<close> is the double
  nearest to 4/5. Of the patterns of the packs, \<open>(unclosed\<close> makes \<open>re.search\<close> raise
  \<open>re.error\<close> and \<open>a{4294967296}\<close> makes it raise \<open>OverflowError\<close>.
\<close>

definition huge_digits :: string where
  "huge_digits = replicate 400 (CHR ''9'')"

definition huge :: int where
  "huge = 10 ^ 400 - 1"

definition unpack_message :: string where
  "unpack_message = ''not enough values to unpack (expected '' @ huge_digits @ '', got 1)''"

definition long_digits :: string where
  "long_digits = replicate 5000 (CHR ''9'')"

definition too_many_message :: string where
  "too_many_message = ''too many values to unpack (expected '' @ long_digits @ '')''"

definition example_runtime :: runtime where
  "example_runtime =
     \<lparr>re_search = (\<lambda>p s.
        if p = pat_name_not_defined \<and> s = ''name 'lst' is not defined'' then Some [''lst'']
        else if p = pat_not_enough \<and> s = unpack_message then Some [huge_digits, ''1'']
        else if p = pat_too_many \<and> s = too_many_message then Some [long_digits]
        else None),
      re_search_ignorecase = (\<lambda>p s.
        if p = ''(unclosed'' then ReError
        else if p = ''a{4294967296}'' then ReRaises OverflowError
        else if p = ''name'' \<and> s = ''name 'lst' is not defined'' then ReMatch
        else if p = ''NAME '.+' IS NOT DEFINED'' \<and> s = ''name 'lst' is not defined''
        then ReMatch
        else if p = ''not enough values'' \<and> s = unpack_message then ReMatch
        else ReNoMatch),
      get_close_matches = (\<lambda>w ps n c.
        if w = ''lst'' \<and> ps = [''list_of_items'', ''lst2'', ''other''] then [''lst2'']
        else []),
      sequence_ratio = (\<lambda>a b. Finite (7720456504063707 / 9007199254740992)),
      int_of_str = (\<lambda>s. if s = huge_digits then Some huge
                        else if s = ''1'' then Some 1 else None),
      float_of_str = (\<lambda>s. if s = ''0.8'' then Some (Finite (3602879701896397 / 4503599627370496))
                          else if s = ''1'' then Some (Finite 1) else None),
      float_of_int = (\<lambda>i. if i = huge then None else Some (Finite (of_int i))),
      str_of_int = (\<lambda>i. None),
      str_of_float = (\<lambda>x. []),
      str_of_list = (\<lambda>xs. []),
      format_percent = (\<lambda>x. ''86%''),
      format_fixed = (\<lambda>d x. None)\<rparr>"

definition example_exn :: exn where
  "example_exn =
     \<lparr>exc_type_name = ''NameError'',
      exc_message = ''name 'lst' is not defined'',
      exc_is_TypeError = False,
      exc_is_ValueError = False\<rparr>"

definition example_context :: error_context where
  "example_context =
     \<lparr>traceback_info =
        [\<lparr>frame_filename = ''app.py'', frame_line_number = 3,
          frame_function_name = Some ''main'', frame_code_line = Some ''print(lst)''\<rparr>],
      file_ctx = \<lparr>fc_filename = Some ''app.py'', fc_error_line = Some 3\<rparr>,
      local_variables =
        [(''lst2'', VList []), (''other'', VInt 1), (''list_of_items'', VList []),
         (''_tmp'', VNone), (''x'', VInt 0)]\<rparr>"

definition example_analysis :: analysis where
  "example_analysis =
     \<lparr>variable_name = ''lst'',
      exception_type = ''NameError'',
      exception_message = ''name 'lst' is not defined'',
      filename = ''app.py'',
      line_number = 3,
      function_name = ''main'',
      available_variables = [''list_of_items'', ''lst2'', ''other''],
      imported_modules = [],
      similar_variables = [''lst2''],
      closest_variable = Some ''lst2'',
      similarity_score = Finite (7720456504063707 / 9007199254740992),
      looks_like_import = False,
      builtin_typo_detected = False,
      correct_builtin = None,
      similar_variables_exist = True,
      object_type = ''unknown'',
      operation = ''operation'',
      type1 = None,
      type2 = None,
      expected = None,
      actual = None,
      bad_value = ''value''\<rparr>"

text \<open>
  Two packs. The core pack has a rule for \<open>TypeError\<close> of priority 10 and a rule for
  \<open>NameError\<close> of priority 5; the user pack has a rule for \<open>NameError\<close> of priority 10,
  whose first pattern does not compile and which asks for a similar variable.
\<close>

definition type_rule :: explanation where
  "type_rule =
     \<lparr>exp_id = ''not_callable'', priority = 10,
      conditions =
        \<lparr>cond_exception_type = ''TypeError'',
         message_patterns = [VStr ''object is not callable''],
         context_conditions = []\<rparr>,
      content =
        \<lparr>title = ''Not callable'', description = ''A {object_type} was called.'',
         suggestions = [], examples = []\<rparr>\<rparr>"

definition plain_rule :: explanation where
  "plain_rule =
     \<lparr>exp_id = ''undefined_name'', priority = 5,
      conditions =
        \<lparr>cond_exception_type = ''NameError'',
         message_patterns = [VStr ''NAME '.+' IS NOT DEFINED''],
         context_conditions = []\<rparr>,
      content =
        \<lparr>title = ''Undefined name'', description = ''{variable_name} is not defined.'',
         suggestions = [], examples = []\<rparr>\<rparr>"

definition typo_rule :: explanation where
  "typo_rule =
     \<lparr>exp_id = ''undefined_name_typo'', priority = 10,
      conditions =
        \<lparr>cond_exception_type = ''NameError'',
         message_patterns = [VStr ''(unclosed'', VStr ''NAME '.+' IS NOT DEFINED''],
         context_conditions =
           [\<lparr>cc_type = ''variable_similarity'', threshold = Some float_0_6,
             min_matches = Some 1, cc_modules = None, cc_functions = None,
             cc_extensions = None, inside_function = None, variable = None,
             expected_type = None, script = None\<rparr>]\<rparr>,
      content =
        \<lparr>title = ''Misspelled name: {variable_name}'',
         description = ''{if similar_variables_exist}Close to {closest_variable}{else}Unknown{endif}'',
         suggestions =
           [\<lparr>template = ''Define {variable_name} first'', sugg_priority = 2,
             sugg_condition = ''always''\<rparr>,
            \<lparr>template = ''{if looks_like_import}Try installing it{endif}'', sugg_priority = 0,
             sugg_condition = ''always''\<rparr>,
            \<lparr>template = ''Use {closest_variable}'', sugg_priority = 1,
             sugg_condition = ''similarity_score > 0.8''\<rparr>,
            \<lparr>template = ''Import {variable_name}'', sugg_priority = 1,
             sugg_condition = ''looks_like_import''\<rparr>],
         examples = []\<rparr>\<rparr>"

definition core_pack :: explanation_pack where
  "core_pack =
     \<lparr>metadata =
        \<lparr>meta_name = ''core-python'', meta_version = ''1.0.0'', meta_description = ''Core'',
         meta_author = ''qinter'', meta_license = ''MIT'', meta_qinter_version = ''1.0'',
         meta_targets = [''NameError'', ''TypeError''], meta_tags = [],
         meta_dependencies = [], meta_homepage = None, meta_repository = None\<rparr>,
      explanations = [type_rule, plain_rule],
      file_path = None\<rparr>"

definition user_pack :: explanation_pack where
  "user_pack =
     \<lparr>metadata =
        \<lparr>meta_name = ''typos'', meta_version = ''0.1.0'', meta_description = ''Typos'',
         meta_author = ''someone'', meta_license = ''MIT'', meta_qinter_version = ''1.0'',
         meta_targets = [''NameError''], meta_tags = [],
         meta_dependencies = [], meta_homepage = None, meta_repository = None\<rparr>,
      explanations = [typo_rule],
      file_path = None\<rparr>"

text \<open>
  The second run: the \<open>ValueError\<close> with the long count, no traceback and no local
  variables, and a pack whose rule tests the count in an \<open>{if ...}\<close> block.
\<close>

definition unpack_exn :: exn where
  "unpack_exn =
     \<lparr>exc_type_name = ''ValueError'',
      exc_message = unpack_message,
      exc_is_TypeError = False,
      exc_is_ValueError = True\<rparr>"

definition empty_context :: error_context where
  "empty_context =
     \<lparr>traceback_info = [],
      file_ctx = \<lparr>fc_filename = None, fc_error_line = None\<rparr>,
      local_variables = []\<rparr>"

definition unpack_analysis :: analysis where
  "unpack_analysis =
     \<lparr>variable_name = ''unknown'',
      exception_type = ''ValueError'',
      exception_message = unpack_message,
      filename = ''interactive'',
      line_number = 0,
      function_name = ''module'',
      available_variables = [],
      imported_modules = [],
      similar_variables = [],
      closest_variable = None,
      similarity_score = float_0_0,
      looks_like_import = False,
      builtin_typo_detected = False,
      correct_builtin = None,
      similar_variables_exist = False,
      object_type = ''unknown'',
      operation = ''operation'',
      type1 = None,
      type2 = None,
      expected = Some huge,
      actual = Some 1,
      bad_value = ''value''\<rparr>"

definition unpack_rule :: explanation where
  "unpack_rule =
     \<lparr>exp_id = ''unpack_too_few'', priority = 7,
      conditions =
        \<lparr>cond_exception_type = ''ValueError'',
         message_patterns = [VStr ''not enough values''],
         context_conditions = []\<rparr>,
      content =
        \<lparr>title = ''Too few values'',
         description = ''{if expected > 1}Several values were expected{endif}'',
         suggestions = [], examples = []\<rparr>\<rparr>"

definition unpack_pack :: explanation_pack where
  "unpack_pack =
     \<lparr>metadata =
        \<lparr>meta_name = ''unpacking'', meta_version = ''0.1.0'', meta_description = ''Unpacking'',
         meta_author = ''someone'', meta_license = ''MIT'', meta_qinter_version = ''1.0'',
         meta_targets = [''ValueError''], meta_tags = [],
         meta_dependencies = [], meta_homepage = None, meta_repository = None\<rparr>,
      explanations = [unpack_rule],
      file_path = None\<rparr>"

text \<open>The third run: the \<open>ValueError\<close> with the count of 5000 digits.\<close>

definition too_many_exn :: exn where
  "too_many_exn =
     \<lparr>exc_type_name = ''ValueError'',
      exc_message = too_many_message,
      exc_is_TypeError = False,
      exc_is_ValueError = True\<rparr>"

text \<open>The facts of the first run, as the renderer reads them.\<close>

definition example_facts :: factset where
  "example_facts = as_dict example_analysis"

text \<open>
  A condition that states the threshold 0, and a FactSet as \<open>analyze\<close> builds it for the
  name \<open>lst\<close> when \<open>lst_values\<close> is the one local variable: one similar variable, whose
  ratio is the double nearest to 6/13.
\<close>

definition zero_threshold_condition :: context_condition where
  "zero_threshold_condition =
     \<lparr>cc_type = ''variable_similarity'', threshold = Some (Finite 0), min_matches = Some 1,
      cc_modules = None, cc_functions = None, cc_extensions = None, inside_function = None,
      variable = None, expected_type = None, script = None\<rparr>"

definition weak_match_analysis :: analysis where
  "weak_match_analysis =
     example_analysis
       \<lparr>available_variables := [''lst_values''],
        similar_variables := [''lst_values''],
        closest_variable := Some ''lst_values'',
        similarity_score := Finite (4157168886803535 / 9007199254740992)\<rparr>"

text \<open>
  A rule for \<open>NameError\<close> whose first pattern has a repetition count that \<open>re\<close> rejects
  with \<open>OverflowError\<close> and whose second pattern is in the message of the first run, and
  the pack that holds it.
\<close>

definition overflow_rule :: explanation where
  "overflow_rule =
     \<lparr>exp_id = ''undefined_name_overflow'', priority = 5,
      conditions =
        \<lparr>cond_exception_type = ''NameError'',
         message_patterns = [VStr ''a{4294967296}'', VStr ''name''],
         context_conditions = []\<rparr>,
      content =
        \<lparr>title = ''Undefined name'', description = ''{variable_name} is not defined.'',
         suggestions = [], examples = []\<rparr>\<rparr>"

definition overflow_pack :: explanation_pack where
  "overflow_pack =
     \<lparr>metadata =
        \<lparr>meta_name = ''overflow'', meta_version = ''0.1.0'', meta_description = ''Overflow'',
         meta_author = ''someone'', meta_license = ''MIT'', meta_qinter_version = ''1.0'',
         meta_targets = [''NameError''], meta_tags = [],
         meta_dependencies = [], meta_homepage = None, meta_repository = None\<rparr>,
      explanations = [overflow_rule],
      file_path = None\<rparr>"

text \<open>
  An engine that holds the rule of the second run, an engine before its first call, and
  three environments. In the usual one the packs load and the encoding of \<open>sys.stdout\<close>
  is UTF-8; in the second the packages directory cannot be created; the third is the
  usual one with ASCII as the encoding of \<open>sys.stdout\<close>.
\<close>

definition loaded_engine :: engine where
  "loaded_engine = \<lparr>initialized = True, loaded_explanations = [(unpack_rule, unpack_pack)]\<rparr>"

definition fresh_engine :: engine where
  "fresh_engine = \<lparr>initialized = False, loaded_explanations = []\<rparr>"

definition unwritable_home :: environment where
  "unwritable_home =
     \<lparr>load_core_packs = Inr [core_pack],
      packages_dir_exists = Inl OSError,
      load_user_packs = Inr [],
      print_line = (\<lambda>l. None)\<rparr>"

definition usual_environment :: environment where
  "usual_environment =
     \<lparr>load_core_packs = Inr [core_pack],
      packages_dir_exists = Inr True,
      load_user_packs = Inr [user_pack],
      print_line = (\<lambda>l. None)\<rparr>"

definition ascii_stdout :: environment where
  "ascii_stdout =
     \<lparr>load_core_packs = Inr [core_pack],
      packages_dir_exists = Inr True,
      load_user_packs = Inr [user_pack],
      print_line = (\<lambda>l. Some UnicodeEncodeError)\<rparr>"

section \<open>Notions used in the properties\<close>

text \<open>
  Two FactSets agree on the list of available variables and on the four similarity
  facts.
\<close>

definition same_similarity :: "analysis \<Rightarrow> analysis \<Rightarrow> bool" where
  "same_similarity a b =
     (available_variables b = available_variables a
      \<and> similar_variables b = similar_variables a
      \<and> closest_variable b = closest_variable a
      \<and> similarity_score b = similarity_score a
      \<and> similar_variables_exist b = similar_variables_exist a)"

text \<open>The invariant of the similarity facts.\<close>

definition similarity_invariant :: "analysis \<Rightarrow> bool" where
  "similarity_invariant a =
     ((similar_variables_exist a = (similar_variables a \<noteq> []))
      \<and> closest_variable a = (case similar_variables a of [] \<Rightarrow> None | s # _ \<Rightarrow> Some s)
      \<and> (similar_variables a = [] \<longrightarrow> similarity_score a = float_0_0))"

text \<open>
  The three stages in the words of the specification: the exception type is equal, one of
  the message patterns matches, every context condition holds.
\<close>

definition passes_all_stages :: "runtime \<Rightarrow> exn \<Rightarrow> analysis \<Rightarrow> explanation \<Rightarrow> bool" where
  "passes_all_stages rt e a ex =
     (cond_exception_type (conditions ex) = exc_type_name e
      \<and> (\<exists>p \<in> set (message_patterns (conditions ex)).
            search_pattern rt p (exc_message e) = ReMatch)
      \<and> (\<forall>c \<in> set (context_conditions (conditions ex)). check_condition c a))"

text \<open>
  \<open>re.search\<close> raises an exception of a class other than \<open>re.error\<close>. On the message \<open>m\<close>,
  no pattern of a rule of the list makes it do so.
\<close>

definition raises_other :: "re_result \<Rightarrow> bool" where
  "raises_other r =
     (case r of ReMatch \<Rightarrow> False | ReNoMatch \<Rightarrow> False | ReError \<Rightarrow> False | ReRaises err \<Rightarrow> True)"

definition no_pattern_raises ::
  "runtime \<Rightarrow> (explanation \<times> explanation_pack) list \<Rightarrow> string \<Rightarrow> bool" where
  "no_pattern_raises rt loaded m =
     (\<forall>x \<in> set loaded. \<forall>p \<in> set (message_patterns (conditions (fst x))).
        \<not> raises_other (search_pattern rt p m))"

text \<open>
  The name that a token stands for: the text of group 1 before its first colon. What
  replaces a character and a token of a missing name.
\<close>

definition var_name_of :: "string \<Rightarrow> string" where
  "var_name_of g = (case split_first '':'' g of None \<Rightarrow> g | Some (var_name, format_spec) \<Rightarrow> var_name)"

fun token_placeholder :: "token \<Rightarrow> string" where
  "token_placeholder (Lit c) = [c]"
| "token_placeholder (Var g) = unknown_variable (var_name_of g)"

text \<open>The first test of \<open>_evaluate_condition\<close> returns nothing for the condition.\<close>

definition no_direct_result :: "factset \<Rightarrow> string \<Rightarrow> bool" where
  "no_direct_result facts c = (facts c = None \<or> facts c = Some VNone)"

section \<open>The examples evaluated\<close>

lemma name_message_not_unpack: "''name 'lst' is not defined'' \<noteq> unpack_message"
  by (simp add: unpack_message_def)

lemma too_many_message_differs:
  "too_many_message \<noteq> ''name 'lst' is not defined''"
  "too_many_message \<noteq> unpack_message"
  by (simp_all add: too_many_message_def unpack_message_def)

lemma long_digits_differs: "long_digits \<noteq> huge_digits" "long_digits \<noteq> ''1''"
proof -
  have "length long_digits \<noteq> length huge_digits"
    by (simp add: long_digits_def huge_digits_def)
  then show "long_digits \<noteq> huge_digits" by (rule contrapos_nn) (rule arg_cong)
  have "length long_digits \<noteq> length ''1''"
    by (simp add: long_digits_def)
  then show "long_digits \<noteq> ''1''" by (rule contrapos_nn) (rule arg_cong)
qed

lemma example_available: "get_available_variables example_context = [''list_of_items'', ''lst2'', ''other'']"
  by (simp add: get_available_variables_def example_context_def startswith_def)

lemma example_initial:
  "initial_analysis example_runtime example_exn example_context =
     example_analysis\<lparr>similar_variables := [], closest_variable := None,
        similarity_score := float_0_0, similar_variables_exist := False\<rparr>"
  by (simp add: initial_analysis_def example_analysis_def get_available_variables_def startswith_def
      extract_variable_name_def extract_object_type_def extract_operation_def extract_bad_value_def
      get_imported_modules_def group_def
      example_runtime_def example_exn_def example_context_def
      pat_name_not_defined_def pat_not_callable_def pat_object_def pat_operation_def
      pat_bad_value_def pat_not_enough_def pat_too_many_def quote_def backslash_def
      name_message_not_unpack too_many_message_differs [symmetric])

lemma example_analyze:
  "analyze example_runtime example_exn example_context = Inr example_analysis"
  unfolding analyze_def Let_def example_initial
  by (simp add: analyze_variable_similarity_def analyze_import_patterns_def
      analyze_builtin_typos_def analyze_type_errors_def analyze_value_errors_def
      example_analysis_def example_runtime_def example_exn_def float_0_4_def float_0_0_def
      lower_def lower_char_def common_modules_def builtin_typos_def)

lemma example_distinct: "distinct (map fst (local_variables example_context))"
  by (simp add: example_context_def)

lemma example_loaded:
  "load_explanations [core_pack, user_pack] =
     [(type_rule, core_pack), (typo_rule, user_pack), (plain_rule, core_pack)]"
  by (simp add: load_explanations_def sort_key_reverse_def core_pack_def user_pack_def
      type_rule_def plain_rule_def typo_rule_def)

lemma example_matches:
  "matches_explanation example_runtime type_rule ''NameError''
     ''name 'lst' is not defined'' example_analysis = Inr False"
  "matches_explanation example_runtime typo_rule ''NameError''
     ''name 'lst' is not defined'' example_analysis = Inr True"
  "matches_explanation example_runtime plain_rule ''NameError''
     ''name 'lst' is not defined'' example_analysis = Inr True"
  by (simp_all add: matches_explanation_def type_rule_def typo_rule_def plain_rule_def
      search_pattern_def ebind_def example_runtime_def
      check_condition_def example_analysis_def float_or_def int_or_def float_0_6_def)

lemma example_find_best:
  "find_best_explanation example_runtime (load_explanations [core_pack, user_pack])
     example_exn example_context = Inr (Some (typo_rule, user_pack, example_analysis))"
  unfolding find_best_explanation_def example_analyze example_loaded
  by (simp add: ebind_def example_matches example_exn_def)

lemma example_find_all:
  "find_all_matching_explanations example_runtime (load_explanations [core_pack, user_pack])
     example_exn example_context
   = Inr [(typo_rule, user_pack, example_analysis), (plain_rule, core_pack, example_analysis)]"
  unfolding find_all_matching_explanations_def example_analyze example_loaded
  by (simp add: ebind_def example_matches example_exn_def)

lemma example_no_pattern_raises:
  "no_pattern_raises example_runtime (load_explanations [core_pack, user_pack])
     ''name 'lst' is not defined''"
  unfolding example_loaded
  by (simp add: no_pattern_raises_def raises_other_def search_pattern_def
      type_rule_def typo_rule_def plain_rule_def example_runtime_def)

lemma overflow_matches:
  "matches_explanation example_runtime overflow_rule ''NameError''
     ''name 'lst' is not defined'' example_analysis = Inl OverflowError"
  by (simp add: matches_explanation_def overflow_rule_def search_pattern_def ebind_def
      example_runtime_def)

lemma huge_digits_not_1: "huge_digits \<noteq> ''1''"
proof
  assume "huge_digits = ''1''"
  then have "length huge_digits = length ''1''" by (rule arg_cong)
  then show False by (simp add: huge_digits_def)
qed

lemma unpack_analyze: "analyze example_runtime unpack_exn empty_context = Inr unpack_analysis"
  by (simp add: analyze_def initial_analysis_def unpack_analysis_def
      extract_variable_name_def extract_object_type_def extract_operation_def
      extract_bad_value_def get_available_variables_def get_imported_modules_def group_def
      analyze_variable_similarity_def analyze_import_patterns_def analyze_builtin_typos_def
      analyze_type_errors_def analyze_value_errors_def py_int_def ebind_def
      example_runtime_def unpack_exn_def empty_context_def
      pat_name_not_defined_def pat_not_callable_def pat_object_def pat_operation_def
      pat_bad_value_def pat_not_enough_def pat_too_many_def quote_def backslash_def
      name_message_not_unpack [symmetric] huge_digits_not_1 [symmetric]
      too_many_message_differs [symmetric]
      lower_def lower_char_def common_modules_def builtin_typos_def)

lemma unpack_find_best:
  "find_best_explanation example_runtime [(unpack_rule, unpack_pack)] unpack_exn empty_context
     = Inr (Some (unpack_rule, unpack_pack, unpack_analysis))"
  unfolding find_best_explanation_def unpack_analyze
  by (simp add: ebind_def matches_explanation_def search_pattern_def unpack_rule_def
      unpack_exn_def example_runtime_def)

lemma unpack_condition:
  "evaluate_condition example_runtime ''expected > 1'' (as_dict unpack_analysis)
     = Inl OverflowError"
  by (simp add: evaluate_condition_def as_dict_def unpack_analysis_def opt_int_def
      strip_def py_isspace_def py_float_def example_runtime_def except_value_type_def ebind_def)

lemma unpack_render:
  "render_explanation example_runtime unpack_rule (as_dict unpack_analysis) = Inl OverflowError"
proof -
  have t: "render_template example_runtime ''Too few values'' (as_dict unpack_analysis)
             = Inr ''Too few values''"
    by (simp add: render_template_def handle_conditional_blocks_def match_if_else_def
      match_if_def match_if_header_def strip_def py_isspace_def ebind_def
      substitute_variables_def)
  have d: "render_template example_runtime
             ''{if expected > 1}Several values were expected{endif}'' (as_dict unpack_analysis)
             = Inl OverflowError"
    by (simp add: render_template_def handle_conditional_blocks_def match_if_else_def
      match_if_def match_if_header_def strip_def py_isspace_def ebind_def unpack_condition)
  show ?thesis
    unfolding render_explanation_def
    by (simp add: unpack_rule_def t d ebind_def)
qed

lemma example_facts_lookup:
  "example_facts ''always'' = None"
  "example_facts ''variable_name'' = Some (VStr ''lst'')"
  "example_facts ''closest_variable'' = Some (VStr ''lst2'')"
  "example_facts ''looks_like_import'' = Some (VBool False)"
  "example_facts ''similar_variables_exist'' = Some (VBool True)"
  "example_facts ''similarity_score'' = Some (VFloat (Finite (7720456504063707 / 9007199254740992)))"
  "example_facts ''similarity_score > 0.8'' = None"
  "example_facts ''nonexistent'' = None"
  by (simp_all add: example_facts_def as_dict_def example_analysis_def opt_str_def)

lemma example_facts_more:
  "example_facts ''available_variables'' = Some (VList [''list_of_items'', ''lst2'', ''other''])"
  "example_facts ''imported_modules'' = Some (VList [])"
  "example_facts ''line_number'' = Some (VInt 3)"
  "example_facts ''correct_builtin'' = Some VNone"
  by (simp_all add: example_facts_def as_dict_def example_analysis_def opt_str_def)

lemma example_conditions:
  "evaluate_condition example_runtime ''looks_like_import'' example_facts = Inr False"
  "evaluate_condition example_runtime ''similar_variables_exist'' example_facts = Inr True"
  "evaluate_condition example_runtime ''similarity_score > 0.8'' example_facts = Inr True"
  by (simp_all add: evaluate_condition_def example_facts_lookup direct_check_def strip_def
      py_isspace_def py_float_def example_runtime_def except_value_type_def ebind_def)

lemma example_templates:
  "render_template example_runtime ''Define {variable_name} first'' example_facts
     = Inr ''Define lst first''"
  "render_template example_runtime ''{if looks_like_import}Try installing it{endif}'' example_facts
     = Inr []"
  "render_template example_runtime ''Use {closest_variable}'' example_facts = Inr ''Use lst2''"
  "render_template example_runtime ''Misspelled name: {variable_name}'' example_facts
     = Inr ''Misspelled name: lst''"
  "render_template example_runtime
     ''{if similar_variables_exist}Close to {closest_variable}{else}Unknown{endif}'' example_facts
     = Inr ''Close to lst2''"
  by (simp_all add: render_template_def handle_conditional_blocks_def match_if_else_def
      match_if_def match_if_header_def py_isspace_def strip_def ebind_def example_conditions
      substitute_variables_def replace_var_def lookup_or_unknown_def example_facts_lookup
      py_str_def)

lemma example_render_suggestions:
  "render_suggestions example_runtime (suggestions (content typo_rule)) example_facts
     = Inr [''Use lst2'', ''Define lst first'']"
  by (simp add: render_suggestions_def typo_rule_def should_include_item_def
      example_conditions example_templates ebind_def)

lemma example_render:
  "render_explanation example_runtime typo_rule example_facts =
     Inr \<lparr>r_title = ''Misspelled name: lst'',
          r_explanation = ''Close to lst2'',
          r_suggestions = [''Use lst2'', ''Define lst first''],
          r_examples = [],
          r_metadata = \<lparr>explanation_id = ''undefined_name_typo'', md_priority = 10,
                         pack_name = None, pack_version = None, pack_author = None\<rparr>\<rparr>"
  unfolding render_explanation_def example_render_suggestions
  by (simp add: typo_rule_def example_templates ebind_def)

lemma usual_initialize:
  "initialize usual_environment fresh_engine =
     (None, \<lparr>initialized = True,
             loaded_explanations = load_explanations [core_pack, user_pack]\<rparr>)"
  by (simp add: initialize_def usual_environment_def fresh_engine_def Let_def)

lemma ascii_initialize:
  "initialize ascii_stdout fresh_engine =
     (Some UnicodeEncodeError,
      \<lparr>initialized = True, loaded_explanations = load_explanations [core_pack, user_pack]\<rparr>)"
  by (simp add: initialize_def ascii_stdout_def fresh_engine_def Let_def)

lemma unwritable_initialize:
  "initialize unwritable_home fresh_engine = (Some OSError, fresh_engine)"
  by (simp add: initialize_def unwritable_home_def fresh_engine_def core_pack_def)

lemma user_pack_metadata:
  "meta_name (metadata user_pack) = ''typos''"
  "meta_version (metadata user_pack) = ''0.1.0''"
  "meta_author (metadata user_pack) = ''someone''"
  by (simp_all add: user_pack_def)

lemma example_explain:
  "explain example_runtime usual_environment fresh_engine example_exn example_context =
     (Inr (Some \<lparr>r_title = ''Misspelled name: lst'',
                 r_explanation = ''Close to lst2'',
                 r_suggestions = [''Use lst2'', ''Define lst first''],
                 r_examples = [],
                 r_metadata = \<lparr>explanation_id = ''undefined_name_typo'', md_priority = 10,
                                pack_name = Some ''typos'', pack_version = Some ''0.1.0'',
                                pack_author = Some ''someone''\<rparr>\<rparr>),
      \<lparr>initialized = True,
       loaded_explanations = load_explanations [core_pack, user_pack]\<rparr>)"
proof -
  have body: "explain_body example_runtime
      \<lparr>initialized = True, loaded_explanations = load_explanations [core_pack, user_pack]\<rparr>
      example_exn example_context =
     Inr (Some \<lparr>r_title = ''Misspelled name: lst'',
                r_explanation = ''Close to lst2'',
                r_suggestions = [''Use lst2'', ''Define lst first''],
                r_examples = [],
                r_metadata = \<lparr>explanation_id = ''undefined_name_typo'', md_priority = 10,
                               pack_name = Some ''typos'', pack_version = Some ''0.1.0'',
                               pack_author = Some ''someone''\<rparr>\<rparr>)"
    unfolding explain_body_def
    by (simp add: example_find_best ebind_def example_render [unfolded example_facts_def]
        user_pack_metadata)
  show ?thesis
    unfolding explain_def
    by (simp add: fresh_engine_def usual_initialize [unfolded fresh_engine_def] body)
qed

lemma too_many_analyze: "analyze example_runtime too_many_exn empty_context = Inl ValueError"
  by (simp add: analyze_def initial_analysis_def
      extract_variable_name_def extract_object_type_def extract_operation_def
      extract_bad_value_def get_available_variables_def get_imported_modules_def group_def
      analyze_variable_similarity_def analyze_import_patterns_def analyze_builtin_typos_def
      analyze_type_errors_def analyze_value_errors_def py_int_def ebind_def
      example_runtime_def too_many_exn_def empty_context_def
      pat_name_not_defined_def pat_not_callable_def pat_object_def pat_operation_def
      pat_bad_value_def pat_not_enough_def pat_too_many_def quote_def backslash_def
      too_many_message_differs long_digits_differs
      lower_def lower_char_def common_modules_def builtin_typos_def)

lemma no_rule_for_example:
  "find_best_explanation example_runtime (loaded_explanations loaded_engine) example_exn
     example_context = Inr None"
  unfolding find_best_explanation_def example_analyze
  by (simp add: loaded_engine_def ebind_def matches_explanation_def unpack_rule_def
      example_exn_def)

lemma too_many_find:
  "find_best_explanation example_runtime loaded too_many_exn empty_context = Inl ValueError"
  "find_all_matching_explanations example_runtime loaded too_many_exn empty_context
     = Inl ValueError"
  by (simp_all add: find_best_explanation_def find_all_matching_explanations_def
      too_many_analyze ebind_def)

section \<open>Properties of the context analyzer\<close>

lemma same_similarity_import: "same_similarity a (analyze_import_patterns a)"
  by (simp add: same_similarity_def analyze_import_patterns_def)

lemma same_similarity_typos: "same_similarity a (analyze_builtin_typos a)"
  by (simp add: same_similarity_def analyze_builtin_typos_def split: option.splits)

lemma same_similarity_type_errors: "same_similarity a (analyze_type_errors rt a e)"
  by (simp add: same_similarity_def analyze_type_errors_def split: option.splits)

lemma same_similarity_value_errors:
  "analyze_value_errors rt a e = Inr b \<Longrightarrow> same_similarity a b"
  by (auto simp: same_similarity_def analyze_value_errors_def ebind_def py_int_def
           split: if_splits option.splits sum.splits)

lemma same_similarity_trans:
  "same_similarity a b \<Longrightarrow> same_similarity b c \<Longrightarrow> same_similarity a c"
  by (simp add: same_similarity_def)

lemma similarity_step_available:
  "available_variables (analyze_variable_similarity rt a) = available_variables a"
  by (simp add: analyze_variable_similarity_def Let_def split: list.splits)

lemma analyze_tail:
  assumes "analyze rt e ctx = Inr a"
  shows "same_similarity (analyze_variable_similarity rt (initial_analysis rt e ctx)) a"
proof -
  let ?a1 = "analyze_variable_similarity rt (initial_analysis rt e ctx)"
  let ?a2 = "analyze_import_patterns ?a1"
  let ?a3 = "analyze_builtin_typos ?a2"
  let ?a4 = "analyze_type_errors rt ?a3 e"
  from assms have "analyze_value_errors rt ?a4 e = Inr a"
    by (simp add: analyze_def Let_def)
  then have "same_similarity ?a4 a" by (rule same_similarity_value_errors)
  moreover have "same_similarity ?a1 ?a2" by (rule same_similarity_import)
  moreover have "same_similarity ?a2 ?a3" by (rule same_similarity_typos)
  moreover have "same_similarity ?a3 ?a4" by (rule same_similarity_type_errors)
  ultimately show ?thesis by (blast intro: same_similarity_trans)
qed

text \<open>
  C9. The \<open>available_variables\<close> of a FactSet that \<open>analyze\<close> returns are the names of
  the local variables that do not start with an underscore and have at least two
  characters, each once, in ascending lexicographic order. The local variables are a
  dictionary, so their names are distinct.
\<close>

theorem available_variables_sorted_filtered:
  assumes "analyze rt e ctx = Inr a"
    and "distinct (map fst (local_variables ctx))"
  shows "sorted (available_variables a)
     \<and> distinct (available_variables a)
     \<and> set (available_variables a) =
         {name \<in> fst ` set (local_variables ctx). \<not> prefix ''_'' name \<and> 2 \<le> length name}"
proof -
  have "available_variables a
          = available_variables (analyze_variable_similarity rt (initial_analysis rt e ctx))"
    using analyze_tail [OF assms(1)] by (simp add: same_similarity_def)
  then have av: "available_variables a = get_available_variables ctx"
    by (simp add: similarity_step_available initial_analysis_def)
  show ?thesis
    unfolding av get_available_variables_def startswith_def
    using assms(2) by auto
qed

theorem available_variables_sorted_filtered_witness:
  "analyze example_runtime example_exn example_context = Inr example_analysis
   \<and> distinct (map fst (local_variables example_context))
   \<and> available_variables example_analysis = [''list_of_items'', ''lst2'', ''other'']
   \<and> sorted (available_variables example_analysis)
   \<and> distinct (available_variables example_analysis)"
  using available_variables_sorted_filtered [OF example_analyze example_distinct]
    example_analyze example_distinct
  by (simp add: example_analysis_def)

lemma similarity_step_invariant:
  assumes "similar_variables a = []" "closest_variable a = None"
    "similarity_score a = float_0_0" "\<not> similar_variables_exist a"
  shows "similarity_invariant (analyze_variable_similarity rt a)"
  using assms
  by (simp add: similarity_invariant_def analyze_variable_similarity_def Let_def
           split: list.splits)

lemma analyze_invariant:
  assumes "analyze rt e ctx = Inr a"
  shows "similarity_invariant a"
proof -
  let ?a0 = "initial_analysis rt e ctx"
  have "similarity_invariant (analyze_variable_similarity rt ?a0)"
    by (rule similarity_step_invariant) (simp_all add: initial_analysis_def)
  moreover have "same_similarity (analyze_variable_similarity rt ?a0) a"
    using assms by (rule analyze_tail)
  ultimately show ?thesis
    by (simp add: similarity_invariant_def same_similarity_def)
qed

text \<open>
  C10. In every FactSet that \<open>analyze\<close> returns, \<open>similar_variables_exist\<close> is true
  exactly when \<open>similar_variables\<close> is not empty, \<open>closest_variable\<close> is the first of the
  similar variables, or \<open>None\<close> when there is none, and \<open>similarity_score\<close> is \<open>0.0\<close> when
  there is none.
\<close>

theorem analyze_similarity_invariant:
  assumes "analyze rt e ctx = Inr a"
  shows "similar_variables_exist a = (similar_variables a \<noteq> [])
     \<and> closest_variable a = (case similar_variables a of [] \<Rightarrow> None | s # _ \<Rightarrow> Some s)
     \<and> (similar_variables a = [] \<longrightarrow> similarity_score a = float_0_0)"
  using analyze_invariant [OF assms] by (simp add: similarity_invariant_def)

theorem analyze_similarity_invariant_witness:
  "analyze example_runtime example_exn example_context = Inr example_analysis
   \<and> similar_variables example_analysis = [''lst2'']
   \<and> similar_variables_exist example_analysis
   \<and> closest_variable example_analysis = Some ''lst2''
   \<and> analyze example_runtime unpack_exn empty_context = Inr unpack_analysis
   \<and> similar_variables unpack_analysis = []
   \<and> \<not> similar_variables_exist unpack_analysis
   \<and> closest_variable unpack_analysis = None
   \<and> similarity_score unpack_analysis = float_0_0"
  using analyze_similarity_invariant [OF example_analyze]
    analyze_similarity_invariant [OF unpack_analyze] example_analyze unpack_analyze
  by (simp add: example_analysis_def unpack_analysis_def)

section \<open>Properties of the pattern matcher\<close>

lemma matches_message_patterns_no_raise:
  "\<forall>p \<in> set ps. \<not> raises_other (search_pattern rt p m) \<Longrightarrow>
     matches_message_patterns rt ps m = Inr (\<exists>p \<in> set ps. search_pattern rt p m = ReMatch)"
  by (induction ps) (auto simp: raises_other_def split: re_result.splits)

lemma matches_message_patterns_skip:
  "search_pattern rt q m = ReError \<Longrightarrow>
     matches_message_patterns rt (q # ps) m = matches_message_patterns rt ps m"
  by simp

lemma matches_context_conditions_iff:
  "matches_context_conditions cs a = (\<forall>c \<in> set cs. check_condition c a)"
  by (induction cs) auto

lemma matches_explanation_stages:
  assumes "\<forall>p \<in> set (message_patterns (conditions ex)). \<not> raises_other (search_pattern rt p (exc_message e))"
  shows "matches_explanation rt ex (exc_type_name e) (exc_message e) a
           = Inr (passes_all_stages rt e a ex)"
  unfolding matches_explanation_def passes_all_stages_def
  by (auto simp: matches_message_patterns_no_raise [OF assms] matches_context_conditions_iff
      ebind_def)

lemma first_match_filter:
  "\<forall>x \<in> set l. matches_explanation rt (fst x) t m a = Inr (P x) \<Longrightarrow>
     first_match rt l t m a =
       Inr (case filter P l of [] \<Rightarrow> None | x # _ \<Rightarrow> Some (fst x, snd x, a))"
  by (induction l) (auto simp: ebind_def)

lemma all_matches_filter:
  "\<forall>x \<in> set l. matches_explanation rt (fst x) t m a = Inr (P x) \<Longrightarrow>
     all_matches rt l t m a = Inr (map (\<lambda>x. (fst x, snd x, a)) (filter P l))"
  by (induction l) (auto simp: ebind_def)

lemma sort_key_reverse_sorted:
  "sorted_wrt (\<lambda>x y. f y \<le> f x) (sort_key_reverse f xs)"
proof -
  have "sorted (map f (sort_key f (rev xs)))" by (rule sorted_sort_key)
  then have "sorted_wrt (\<lambda>x y. f x \<le> f y) (sort_key f (rev xs))"
    by (simp add: sorted_map)
  then show ?thesis
    unfolding sort_key_reverse_def by (simp add: sorted_wrt_rev)
qed

lemma sort_key_reverse_stable:
  "filter (\<lambda>x. f x = k) (sort_key_reverse f xs) = filter (\<lambda>x. f x = k) xs"
proof -
  have "filter (\<lambda>x. f x = k) (sort_key_reverse f xs)
          = rev (filter (\<lambda>x. f x = k) (sort_key f (rev xs)))"
    unfolding sort_key_reverse_def by (simp add: rev_filter)
  also have "\<dots> = rev (filter (\<lambda>x. f x = k) (rev xs))"
    by (simp only: sort_key_stable)
  also have "\<dots> = filter (\<lambda>x. f x = k) xs"
    by (simp add: rev_filter)
  finally show ?thesis .
qed

lemma first_match_Some:
  "first_match rt l t m a = Inr (Some (ex, pack, a')) \<Longrightarrow>
     matches_explanation rt ex t m a = Inr True \<and> (ex, pack) \<in> set l \<and> a' = a"
  by (induction l) (auto simp: ebind_def split: sum.splits if_splits)

lemma find_with_analysis:
  assumes "analyze rt e ctx = Inr a" and "no_pattern_raises rt loaded (exc_message e)"
  shows "find_best_explanation rt loaded e ctx =
           Inr (case filter (\<lambda>x. passes_all_stages rt e a (fst x)) loaded of
                  [] \<Rightarrow> None
                | x # _ \<Rightarrow> Some (fst x, snd x, a))"
    and "find_all_matching_explanations rt loaded e ctx =
           Inr (map (\<lambda>x. (fst x, snd x, a))
                  (filter (\<lambda>x. passes_all_stages rt e a (fst x)) loaded))"
proof -
  have m: "\<forall>x \<in> set loaded.
             matches_explanation rt (fst x) (exc_type_name e) (exc_message e) a
               = Inr (passes_all_stages rt e a (fst x))"
    using assms(2) by (auto simp: no_pattern_raises_def intro!: matches_explanation_stages)
  show "find_best_explanation rt loaded e ctx =
           Inr (case filter (\<lambda>x. passes_all_stages rt e a (fst x)) loaded of
                  [] \<Rightarrow> None
                | x # _ \<Rightarrow> Some (fst x, snd x, a))"
    unfolding find_best_explanation_def assms(1)
    by (simp add: ebind_def first_match_filter [OF m])
  show "find_all_matching_explanations rt loaded e ctx =
           Inr (map (\<lambda>x. (fst x, snd x, a))
                  (filter (\<lambda>x. passes_all_stages rt e a (fst x)) loaded))"
    unfolding find_all_matching_explanations_def assms(1)
    by (simp add: ebind_def all_matches_filter [OF m])
qed

lemma find_without_analysis:
  assumes "analyze rt e ctx = Inl err"
  shows "find_best_explanation rt loaded e ctx = Inl err"
    and "find_all_matching_explanations rt loaded e ctx = Inl err"
  using assms
  by (simp_all add: find_best_explanation_def find_all_matching_explanations_def ebind_def)

text \<open>
  C3, amended. The list that \<open>load_explanations\<close> builds is in descending order of
  priority and, for each priority, holds the rules of that priority in the order of the
  concatenation of the packs' rules, each with its pack. When \<open>analyze\<close> returns the
  FactSet \<open>a\<close> and no pattern of a loaded rule makes \<open>re.search\<close> raise an exception of a
  class other than \<open>re.error\<close>, \<open>find_best_explanation\<close> returns the first rule of that
  list that passes the three stages and \<open>find_all_matching_explanations\<close> returns all of
  them in the list's order: \<open>None\<close> and the empty list when no rule passes. When \<open>analyze\<close>
  raises an exception, both functions raise it, whatever the list holds.
\<close>

theorem load_sorted_stable_find_first:
  "sorted_wrt (\<lambda>x y. priority (fst y) \<le> priority (fst x)) (load_explanations packs)
   \<and> (\<forall>k. filter (\<lambda>x. priority (fst x) = k) (load_explanations packs)
          = filter (\<lambda>x. priority (fst x) = k)
              (concat (map (\<lambda>pack. map (\<lambda>ex. (ex, pack)) (explanations pack)) packs)))
   \<and> (analyze rt e ctx = Inr a
        \<and> no_pattern_raises rt (load_explanations packs) (exc_message e) \<longrightarrow>
          find_best_explanation rt (load_explanations packs) e ctx =
            Inr (case filter (\<lambda>x. passes_all_stages rt e a (fst x)) (load_explanations packs) of
                   [] \<Rightarrow> None
                 | x # _ \<Rightarrow> Some (fst x, snd x, a))
        \<and> find_all_matching_explanations rt (load_explanations packs) e ctx =
            Inr (map (\<lambda>x. (fst x, snd x, a))
                   (filter (\<lambda>x. passes_all_stages rt e a (fst x)) (load_explanations packs))))
   \<and> (analyze rt e ctx = Inl err \<longrightarrow>
          find_best_explanation rt (load_explanations packs) e ctx = Inl err
        \<and> find_all_matching_explanations rt (load_explanations packs) e ctx = Inl err)"
proof -
  have "sorted_wrt (\<lambda>x y. priority (fst y) \<le> priority (fst x)) (load_explanations packs)"
    unfolding load_explanations_def by (rule sort_key_reverse_sorted)
  moreover have "\<forall>k. filter (\<lambda>x. priority (fst x) = k) (load_explanations packs)
           = filter (\<lambda>x. priority (fst x) = k)
               (concat (map (\<lambda>pack. map (\<lambda>ex. (ex, pack)) (explanations pack)) packs))"
    unfolding load_explanations_def by (simp add: sort_key_reverse_stable)
  ultimately show ?thesis
    using find_with_analysis [of rt e ctx a "load_explanations packs"]
      find_without_analysis [of rt e ctx err "load_explanations packs"]
    by blast
qed

theorem load_sorted_stable_find_first_witness:
  "analyze example_runtime example_exn example_context = Inr example_analysis
   \<and> no_pattern_raises example_runtime (load_explanations [core_pack, user_pack])
       (exc_message example_exn)
   \<and> load_explanations [core_pack, user_pack] =
       [(type_rule, core_pack), (typo_rule, user_pack), (plain_rule, core_pack)]
   \<and> find_best_explanation example_runtime (load_explanations [core_pack, user_pack])
       example_exn example_context = Inr (Some (typo_rule, user_pack, example_analysis))
   \<and> find_all_matching_explanations example_runtime (load_explanations [core_pack, user_pack])
       example_exn example_context
     = Inr [(typo_rule, user_pack, example_analysis), (plain_rule, core_pack, example_analysis)]
   \<and> sorted_wrt (\<lambda>x y. priority (fst y) \<le> priority (fst x))
       (load_explanations [core_pack, user_pack])
   \<and> analyze example_runtime too_many_exn empty_context = Inl ValueError
   \<and> find_best_explanation example_runtime (load_explanations [core_pack, user_pack])
       too_many_exn empty_context = Inl ValueError"
  using load_sorted_stable_find_first [of "[core_pack, user_pack]" example_runtime example_exn
      example_context example_analysis ValueError]
    load_sorted_stable_find_first [of "[core_pack, user_pack]" example_runtime too_many_exn
      empty_context example_analysis ValueError]
    example_analyze example_loaded example_find_best example_find_all too_many_analyze
    example_no_pattern_raises
  by (simp add: example_exn_def)

theorem empty_catalog_raises_counterexample:
  "load_explanations [] = []
   \<and> find_best_explanation example_runtime (load_explanations []) too_many_exn empty_context
       = Inl ValueError
   \<and> find_all_matching_explanations example_runtime (load_explanations []) too_many_exn
       empty_context = Inl ValueError"
  by (simp add: too_many_find load_explanations_def sort_key_reverse_def)

text \<open>
  C7. On the patterns \<open>a{4294967296}\<close> and \<open>name\<close> and the message
  \<open>name 'lst' is not defined\<close>, \<open>re.search\<close> raises \<open>OverflowError\<close> for the first pattern,
  which does not compile, and finds the second in the message. The first pattern is not
  passed over: \<open>_matches_message_patterns\<close> raises \<open>OverflowError\<close>, and so do
  \<open>_matches_explanation\<close> and \<open>find_best_explanation\<close> on a rule with these patterns.
  With the second pattern alone the stage holds, and a pattern for which \<open>re.search\<close>
  raises \<open>re.error\<close> is passed over. A pattern that is no string is not passed over
  either: \<open>TypeError\<close> leaves the function.
\<close>

theorem overflow_pattern_not_skipped:
  "search_pattern example_runtime (VStr ''a{4294967296}'') ''name 'lst' is not defined''
     = ReRaises OverflowError
   \<and> search_pattern example_runtime (VStr ''name'') ''name 'lst' is not defined'' = ReMatch
   \<and> matches_message_patterns example_runtime [VStr ''a{4294967296}'', VStr ''name'']
        ''name 'lst' is not defined'' = Inl OverflowError
   \<and> matches_message_patterns example_runtime [VStr ''name'']
        ''name 'lst' is not defined'' = Inr True
   \<and> matches_message_patterns example_runtime [VStr ''(unclosed'', VStr ''name'']
        ''name 'lst' is not defined'' = Inr True
   \<and> matches_message_patterns example_runtime [VInt 42, VStr ''name'']
        ''name 'lst' is not defined'' = Inl TypeError
   \<and> matches_explanation example_runtime overflow_rule ''NameError''
        ''name 'lst' is not defined'' example_analysis = Inl OverflowError
   \<and> find_best_explanation example_runtime (load_explanations [overflow_pack])
        example_exn example_context = Inl OverflowError"
proof -
  have l: "load_explanations [overflow_pack] = [(overflow_rule, overflow_pack)]"
    by (simp add: load_explanations_def sort_key_reverse_def overflow_pack_def)
  have f: "find_best_explanation example_runtime (load_explanations [overflow_pack])
        example_exn example_context = Inl OverflowError"
    unfolding find_best_explanation_def example_analyze l
    by (simp add: ebind_def overflow_matches example_exn_def)
  have s: "search_pattern example_runtime (VStr ''a{4294967296}'') ''name 'lst' is not defined''
             = ReRaises OverflowError"
    "search_pattern example_runtime (VStr ''name'') ''name 'lst' is not defined'' = ReMatch"
    "search_pattern example_runtime (VStr ''(unclosed'') ''name 'lst' is not defined'' = ReError"
    "search_pattern example_runtime (VInt 42) ''name 'lst' is not defined''
       = ReRaises TypeError"
    by (simp_all add: search_pattern_def example_runtime_def)
  show ?thesis
    by (simp add: f overflow_matches s)
qed

text \<open>
  C8. A rule that \<open>find_best_explanation\<close> returns has the type name of the exception as
  its \<open>exception_type\<close>.
\<close>

theorem find_best_exception_type:
  assumes "find_best_explanation rt loaded e ctx = Inr (Some (ex, pack, a))"
  shows "cond_exception_type (conditions ex) = exc_type_name e"
proof -
  from assms obtain a0
    where "first_match rt loaded (exc_type_name e) (exc_message e) a0 = Inr (Some (ex, pack, a))"
    unfolding find_best_explanation_def ebind_def by (auto split: sum.splits)
  then have "matches_explanation rt ex (exc_type_name e) (exc_message e) a0 = Inr True"
    by (auto dest: first_match_Some)
  then show ?thesis
    unfolding matches_explanation_def by (auto split: if_splits)
qed

theorem find_best_exception_type_witness:
  "find_best_explanation example_runtime (load_explanations [core_pack, user_pack])
     example_exn example_context = Inr (Some (typo_rule, user_pack, example_analysis))
   \<and> cond_exception_type (conditions typo_rule) = exc_type_name example_exn"
  using find_best_exception_type [OF example_find_best] example_find_best by simp

section \<open>Properties of the template renderer\<close>

subsection \<open>Variable substitution\<close>

lemma py_float_unknown: "py_float rt (VStr (unknown_variable n)) = Inl ValueError"
  by (simp add: py_float_def unknown_variable_def)

lemma replace_var_missing:
  assumes "facts (var_name_of g) = None"
  shows "replace_var rt facts g = Inr (unknown_variable (var_name_of g))"
proof (cases "split_first '':'' g")
  case None
  with assms show ?thesis
    by (simp add: replace_var_def var_name_of_def lookup_or_unknown_def py_str_def)
next
  case (Some p)
  obtain n fmt where p: "p = (n, fmt)" by (cases p)
  with Some have n: "var_name_of g = n" by (simp add: var_name_of_def)
  with assms have v: "lookup_or_unknown facts n = VStr (unknown_variable n)"
    by (simp add: lookup_or_unknown_def)
  show ?thesis
    unfolding replace_var_def Some p n
    by (simp add: v py_float_unknown py_str_def py_int_def except_value_type_def ebind_def
        Let_def split: option.splits)
qed

lemma scan_variables_token:
  assumes "g \<noteq> []" "CHR ''}'' \<notin> set g"
  shows "scan_variables (CHR ''{'' # g @ CHR ''}'' # rest) = Var g # scan_variables rest"
proof -
  have t: "takeWhile (\<lambda>x. x \<noteq> CHR ''}'') (g @ CHR ''}'' # rest) = g"
    using assms(2) by (induction g) auto
  have d: "dropWhile (\<lambda>x. x \<noteq> CHR ''}'') (g @ CHR ''}'' # rest) = CHR ''}'' # rest"
    using assms(2) by (induction g) auto
  show ?thesis using assms(1) by (simp add: t d)
qed

lemma scan_variables_plain:
  "CHR ''{'' \<notin> set pre \<Longrightarrow> scan_variables (pre @ s) = map Lit pre @ scan_variables s"
  by (induction pre) auto

lemma substitute_tokens_plain:
  "substitute_tokens rt facts (map Lit pre @ ts)
     = ebind (substitute_tokens rt facts ts) (\<lambda>r. Inr (pre @ r))"
  by (induction pre) (auto simp: ebind_def split: sum.splits)

lemma substitute_variables_token:
  assumes "CHR ''{'' \<notin> set pre" "g \<noteq> []" "CHR ''}'' \<notin> set g"
    and "replace_var rt facts g = Inr s"
  shows "substitute_variables rt (pre @ ''{'' @ g @ ''}'' @ post) facts
     = ebind (substitute_variables rt post facts) (\<lambda>r. Inr (pre @ s @ r))"
proof -
  have "scan_variables (pre @ ''{'' @ g @ ''}'' @ post)
          = map Lit pre @ Var g # scan_variables post"
    using assms(1-3) scan_variables_token [of g post]
    by (simp add: scan_variables_plain)
  then show ?thesis
    unfolding substitute_variables_def
    by (simp add: substitute_tokens_plain assms(4) ebind_def split: sum.splits)
qed

lemma substitute_tokens_missing:
  "(\<forall>g. Var g \<in> set ts \<longrightarrow> facts (var_name_of g) = None) \<Longrightarrow>
     substitute_tokens rt facts ts = Inr (concat (map token_placeholder ts))"
proof (induction ts)
  case Nil
  then show ?case by simp
next
  case (Cons t ts)
  then show ?case
    by (cases t) (simp_all add: ebind_def replace_var_missing)
qed

text \<open>
  C6. The name of a token is the text of group 1 before its first colon. A token whose
  name is no fact is replaced by the text \<open>{unknown_variable_name}\<close>, with a format or
  without, and no exception comes from it: after a text \<open>pre\<close> without an opening
  brace, so that the token is the next match, the result is an exception only where the
  rest of the template raises one. Against the empty FactSet every template is
  substituted without an exception, each token by its placeholder, and \<open>{nonexistent}\<close>
  renders as \<open>{unknown_variable_nonexistent}\<close>.
\<close>

theorem missing_fact_placeholder:
  "(facts (var_name_of g) = None \<longrightarrow>
      replace_var rt facts g = Inr (unknown_variable (var_name_of g)))
   \<and> (facts (var_name_of g) = None \<and> g \<noteq> [] \<and> CHR ''}'' \<notin> set g \<and> CHR ''{'' \<notin> set pre \<longrightarrow>
       substitute_variables rt (pre @ ''{'' @ g @ ''}'' @ post) facts
         = ebind (substitute_variables rt post facts)
             (\<lambda>r. Inr (pre @ unknown_variable (var_name_of g) @ r)))
   \<and> substitute_variables rt tmpl Map.empty
        = Inr (concat (map token_placeholder (scan_variables tmpl)))
   \<and> substitute_variables rt ''{nonexistent}'' Map.empty
        = Inr ''{unknown_variable_nonexistent}''
   \<and> render_template rt ''{nonexistent}'' Map.empty
        = Inr ''{unknown_variable_nonexistent}''"
proof -
  have a: "facts (var_name_of g) = None \<longrightarrow>
      replace_var rt facts g = Inr (unknown_variable (var_name_of g))"
    by (simp add: replace_var_missing)
  have b: "facts (var_name_of g) = None \<and> g \<noteq> [] \<and> CHR ''}'' \<notin> set g \<and> CHR ''{'' \<notin> set pre \<longrightarrow>
       substitute_variables rt (pre @ ''{'' @ g @ ''}'' @ post) facts
         = ebind (substitute_variables rt post facts)
             (\<lambda>r. Inr (pre @ unknown_variable (var_name_of g) @ r))"
  proof (intro impI, elim conjE)
    assume h: "facts (var_name_of g) = None" "g \<noteq> []" "CHR ''}'' \<notin> set g"
      "CHR ''{'' \<notin> set pre"
    show "substitute_variables rt (pre @ ''{'' @ g @ ''}'' @ post) facts
         = ebind (substitute_variables rt post facts)
             (\<lambda>r. Inr (pre @ unknown_variable (var_name_of g) @ r))"
      using h(1) by (intro substitute_variables_token h replace_var_missing)
  qed
  have c: "substitute_variables rt tmpl Map.empty
        = Inr (concat (map token_placeholder (scan_variables tmpl)))"
    unfolding substitute_variables_def by (rule substitute_tokens_missing) simp
  have d: "substitute_variables rt ''{nonexistent}'' Map.empty
          = Inr ''{unknown_variable_nonexistent}''"
    by (simp add: substitute_variables_def replace_var_def lookup_or_unknown_def py_str_def
        unknown_variable_def ebind_def)
  have e: "render_template rt ''{nonexistent}'' Map.empty
          = Inr ''{unknown_variable_nonexistent}''"
    by (simp add: render_template_def handle_conditional_blocks_def match_if_else_def
        match_if_def match_if_header_def ebind_def d strip_def py_isspace_def)
  from a b c d e show ?thesis by blast
qed

theorem missing_fact_placeholder_witness:
  "example_facts (var_name_of ''nonexistent:.0%'') = None
   \<and> replace_var example_runtime example_facts ''nonexistent:.0%''
       = Inr ''{unknown_variable_nonexistent}''
   \<and> substitute_variables example_runtime ''Value: {nonexistent:.0%}!'' example_facts
       = Inr ''Value: {unknown_variable_nonexistent}!''"
proof -
  have n: "var_name_of ''nonexistent:.0%'' = ''nonexistent''"
    by (simp add: var_name_of_def)
  have tail: "substitute_variables example_runtime ''!'' example_facts = Inr ''!''"
    by (simp add: substitute_variables_def ebind_def)
  from missing_fact_placeholder [of example_facts "''nonexistent:.0%''" example_runtime
      "''Value: ''" "''!''"] example_facts_lookup(8)
  show ?thesis
    by (simp add: n tail ebind_def unknown_variable_def)
qed

subsection \<open>Condition expressions\<close>

lemma evaluate_condition_fallthrough:
  "no_direct_result facts c \<Longrightarrow>
     evaluate_condition rt c facts =
       (case split_first '' > '' c of
          Some (left, right) \<Rightarrow>
            except_value_type
              (ebind (py_float rt (VStr (strip right))) (\<lambda>right_val.
               ebind (py_float rt (case facts (strip left) of None \<Rightarrow> VInt 0 | Some v \<Rightarrow> v))
                 (\<lambda>l. Inr (float_gt l right_val))))
              (Inr False)
        | None \<Rightarrow> Inr False)"
  by (auto simp: no_direct_result_def evaluate_condition_def direct_check_def Let_def
           split: option.splits)

lemma split_first_always: "split_first '' > '' ''always'' = None"
  by simp

lemma if_always_blocks:
  "facts ''always'' = None \<Longrightarrow>
     handle_conditional_blocks rt ''{if always}shown{endif}'' facts = Inr []"
  by (simp add: handle_conditional_blocks_def match_if_else_def match_if_def
      match_if_header_def py_isspace_def strip_def ebind_def evaluate_condition_def)

lemma always_block_dropped:
  assumes "facts ''always'' = None" "strip g = ''always''"
  shows "expand_blocks rt facts (IfBlock g body # bs) = expand_blocks rt facts bs"
    and "expand_blocks rt facts (IfElseBlock g body alt # bs)
           = ebind (expand_blocks rt facts bs) (\<lambda>t. Inr (alt @ t))"
  using assms by (simp_all add: evaluate_condition_def ebind_def split: sum.splits)

text \<open>
  C2, amended. The condition \<open>always\<close> is true as the inclusion condition of a suggestion
  or an example. As the condition of an \<open>{if ...}\<close> block it is evaluated as any other
  expression: it is false when the FactSet has no fact of that name, and the block
  renders as the empty text. A condition that names a fact is the fact's truth value by
  its type. Otherwise, a condition with \<open>" > "\<close> in it compares \<open>float\<close> of the fact named
  before the first \<open>" > "\<close> (0 for a missing fact) with \<open>float\<close> of the text after it, and is
  false when either does not convert (\<open>ValueError\<close>, \<open>TypeError\<close>). Every other condition
  is false.
\<close>

theorem condition_evaluation_cases:
  "should_include_item rt ''always'' facts = Inr True
   \<and> (facts ''always'' = None \<longrightarrow>
         evaluate_condition rt ''always'' facts = Inr False
         \<and> render_template rt ''{if always}shown{endif}'' facts = Inr [])
   \<and> (facts ''always'' = None \<and> strip g = ''always'' \<longrightarrow>
         expand_blocks rt facts (IfBlock g body # bs) = expand_blocks rt facts bs
         \<and> expand_blocks rt facts (IfElseBlock g body alt # bs)
             = ebind (expand_blocks rt facts bs) (\<lambda>t. Inr (alt @ t)))
   \<and> (facts c = Some (VBool b) \<longrightarrow> evaluate_condition rt c facts = Inr b)
   \<and> (facts c = Some (VStr s) \<longrightarrow> evaluate_condition rt c facts = Inr (s \<noteq> []))
   \<and> (facts c = Some (VList xs) \<longrightarrow> evaluate_condition rt c facts = Inr (xs \<noteq> []))
   \<and> (facts c = Some (VInt i) \<longrightarrow> evaluate_condition rt c facts = Inr (0 < i))
   \<and> (facts c = Some (VFloat x) \<longrightarrow>
         evaluate_condition rt c facts = Inr (float_gt x (Finite 0)))
   \<and> (no_direct_result facts c \<and> split_first '' > '' c = Some (l, r)
        \<and> py_float rt (VStr (strip r)) = Inr y
        \<and> py_float rt (case facts (strip l) of None \<Rightarrow> VInt 0 | Some v \<Rightarrow> v) = Inr z \<longrightarrow>
         evaluate_condition rt c facts = Inr (float_gt z y))
   \<and> (no_direct_result facts c \<and> split_first '' > '' c = Some (l, r)
        \<and> py_float rt (VStr (strip r)) = Inl ValueError \<longrightarrow>
         evaluate_condition rt c facts = Inr False)
   \<and> (no_direct_result facts c \<and> split_first '' > '' c = Some (l, r)
        \<and> py_float rt (VStr (strip r)) = Inr y
        \<and> py_float rt (case facts (strip l) of None \<Rightarrow> VInt 0 | Some v \<Rightarrow> v)
             \<in> {Inl ValueError, Inl TypeError} \<longrightarrow>
         evaluate_condition rt c facts = Inr False)
   \<and> (no_direct_result facts c \<and> split_first '' > '' c = None \<longrightarrow>
         evaluate_condition rt c facts = Inr False)"
proof -
  have a: "should_include_item rt ''always'' facts = Inr True"
    by (simp add: should_include_item_def)
  have b: "facts ''always'' = None \<longrightarrow>
         evaluate_condition rt ''always'' facts = Inr False
         \<and> render_template rt ''{if always}shown{endif}'' facts = Inr []"
    by (simp add: evaluate_condition_def render_template_def if_always_blocks ebind_def
        substitute_variables_def strip_def)
  have b': "facts ''always'' = None \<and> strip g = ''always'' \<longrightarrow>
         expand_blocks rt facts (IfBlock g body # bs) = expand_blocks rt facts bs
         \<and> expand_blocks rt facts (IfElseBlock g body alt # bs)
             = ebind (expand_blocks rt facts bs) (\<lambda>t. Inr (alt @ t))"
    using always_block_dropped by blast
  have d: "(facts c = Some (VBool b) \<longrightarrow> evaluate_condition rt c facts = Inr b)
   \<and> (facts c = Some (VStr s) \<longrightarrow> evaluate_condition rt c facts = Inr (s \<noteq> []))
   \<and> (facts c = Some (VList xs) \<longrightarrow> evaluate_condition rt c facts = Inr (xs \<noteq> []))
   \<and> (facts c = Some (VInt i) \<longrightarrow> evaluate_condition rt c facts = Inr (0 < i))
   \<and> (facts c = Some (VFloat x) \<longrightarrow>
         evaluate_condition rt c facts = Inr (float_gt x (Finite 0)))"
    by (simp add: evaluate_condition_def direct_check_def)
  have e: "no_direct_result facts c \<and> split_first '' > '' c = Some (l, r)
        \<and> py_float rt (VStr (strip r)) = Inr y
        \<and> py_float rt (case facts (strip l) of None \<Rightarrow> VInt 0 | Some v \<Rightarrow> v) = Inr z \<longrightarrow>
         evaluate_condition rt c facts = Inr (float_gt z y)"
    by (simp add: evaluate_condition_fallthrough except_value_type_def ebind_def)
  have f: "no_direct_result facts c \<and> split_first '' > '' c = Some (l, r)
        \<and> py_float rt (VStr (strip r)) = Inl ValueError \<longrightarrow>
         evaluate_condition rt c facts = Inr False"
    by (simp add: evaluate_condition_fallthrough except_value_type_def ebind_def)
  have g: "no_direct_result facts c \<and> split_first '' > '' c = Some (l, r)
        \<and> py_float rt (VStr (strip r)) = Inr y
        \<and> py_float rt (case facts (strip l) of None \<Rightarrow> VInt 0 | Some v \<Rightarrow> v)
             \<in> {Inl ValueError, Inl TypeError} \<longrightarrow>
         evaluate_condition rt c facts = Inr False"
    by (auto simp: evaluate_condition_fallthrough except_value_type_def ebind_def)
  have h: "no_direct_result facts c \<and> split_first '' > '' c = None \<longrightarrow>
         evaluate_condition rt c facts = Inr False"
    by (simp add: evaluate_condition_fallthrough)
  from a b b' d e f g h show ?thesis by blast
qed

theorem condition_evaluation_cases_witness:
  "should_include_item example_runtime ''always'' example_facts = Inr True
   \<and> example_facts ''always'' = None
   \<and> evaluate_condition example_runtime ''always'' example_facts = Inr False
   \<and> expand_blocks example_runtime example_facts [IfBlock '' always '' ''shown''] = Inr []
   \<and> evaluate_condition example_runtime ''similar_variables_exist'' example_facts = Inr True
   \<and> evaluate_condition example_runtime ''variable_name'' example_facts = Inr True
   \<and> evaluate_condition example_runtime ''imported_modules'' example_facts = Inr False
   \<and> evaluate_condition example_runtime ''line_number'' example_facts = Inr True
   \<and> evaluate_condition example_runtime ''similarity_score'' example_facts = Inr True
   \<and> evaluate_condition example_runtime ''correct_builtin'' example_facts = Inr False
   \<and> evaluate_condition example_runtime ''similarity_score > 0.8'' example_facts = Inr True
   \<and> evaluate_condition example_runtime ''similarity_score > high'' example_facts = Inr False
   \<and> evaluate_condition example_runtime ''available_variables > 0.8'' example_facts = Inr False
   \<and> evaluate_condition example_runtime ''variable_name > 0.8'' example_facts = Inr False
   \<and> evaluate_condition example_runtime ''is defined'' example_facts = Inr False"
proof -
  let ?E = "\<lambda>c. evaluate_condition example_runtime c example_facts"
  have sp: "split_first '' > '' ''similarity_score > 0.8'' = Some (''similarity_score'', ''0.8'')"
    "split_first '' > '' ''similarity_score > high'' = Some (''similarity_score'', ''high'')"
    "split_first '' > '' ''available_variables > 0.8'' = Some (''available_variables'', ''0.8'')"
    "split_first '' > '' ''variable_name > 0.8'' = Some (''variable_name'', ''0.8'')"
    "split_first '' > '' ''is defined'' = None"
    "split_first '' > '' ''correct_builtin'' = None"
    by simp_all
  have nd: "no_direct_result example_facts ''similarity_score > 0.8''"
    "no_direct_result example_facts ''similarity_score > high''"
    "no_direct_result example_facts ''available_variables > 0.8''"
    "no_direct_result example_facts ''variable_name > 0.8''"
    "no_direct_result example_facts ''is defined''"
    "no_direct_result example_facts ''correct_builtin''"
    by (simp_all add: no_direct_result_def example_facts_def as_dict_def opt_str_def
        example_analysis_def)
  have st: "strip ''0.8'' = ''0.8''" "strip ''high'' = ''high''"
    "strip ''similarity_score'' = ''similarity_score''"
    "strip ''available_variables'' = ''available_variables''"
    "strip ''variable_name'' = ''variable_name''"
    "strip '' always '' = ''always''"
    by (simp_all add: strip_def py_isspace_def)
  have fl: "py_float example_runtime (VStr ''0.8'')
              = Inr (Finite (3602879701896397 / 4503599627370496))"
    "py_float example_runtime (VStr ''high'') = Inl ValueError"
    "py_float example_runtime (VFloat (Finite (7720456504063707 / 9007199254740992)))
              = Inr (Finite (7720456504063707 / 9007199254740992))"
    "py_float example_runtime (VList [''list_of_items'', ''lst2'', ''other'']) = Inl TypeError"
    "py_float example_runtime (VStr ''lst'') = Inl ValueError"
    by (simp_all add: py_float_def example_runtime_def)
  note T = condition_evaluation_cases [where rt = example_runtime and facts = example_facts]
  have 1: "?E ''similar_variables_exist'' = Inr True"
    using T [where c = "''similar_variables_exist''" and b = True] example_facts_lookup by simp
  have 2: "?E ''variable_name'' = Inr True"
    using T [where c = "''variable_name''" and s = "''lst''"] example_facts_lookup by simp
  have 3: "?E ''imported_modules'' = Inr False"
    using T [where c = "''imported_modules''" and xs = "[]"] example_facts_more by simp
  have 4: "?E ''line_number'' = Inr True"
    using T [where c = "''line_number''" and i = 3] example_facts_more by simp
  have 5: "?E ''similarity_score'' = Inr True"
    using T [where c = "''similarity_score''"
        and x = "Finite (7720456504063707 / 9007199254740992)"] example_facts_lookup by simp
  have 6: "?E ''correct_builtin'' = Inr False"
    using T [where c = "''correct_builtin''"] sp nd by simp
  have 7: "?E ''similarity_score > 0.8'' = Inr True"
    using T [where c = "''similarity_score > 0.8''" and l = "''similarity_score''"
        and r = "''0.8''" and y = "Finite (3602879701896397 / 4503599627370496)"
        and z = "Finite (7720456504063707 / 9007199254740992)"]
      sp nd st fl example_facts_lookup by simp
  have 8: "?E ''similarity_score > high'' = Inr False"
    using T [where c = "''similarity_score > high''" and l = "''similarity_score''"
        and r = "''high''"] sp nd st fl by simp
  have 9: "?E ''available_variables > 0.8'' = Inr False"
    using T [where c = "''available_variables > 0.8''" and l = "''available_variables''"
        and r = "''0.8''" and y = "Finite (3602879701896397 / 4503599627370496)"]
      sp nd st fl example_facts_more by simp
  have 10: "?E ''variable_name > 0.8'' = Inr False"
    using T [where c = "''variable_name > 0.8''" and l = "''variable_name''"
        and r = "''0.8''" and y = "Finite (3602879701896397 / 4503599627370496)"]
      sp nd st fl example_facts_lookup by simp
  have 11: "?E ''is defined'' = Inr False"
    using T [where c = "''is defined''"] sp nd by simp
  have 12: "expand_blocks example_runtime example_facts [IfBlock '' always '' ''shown''] = Inr []"
    using T [where g = "'' always ''" and body = "''shown''" and bs = "[]"]
      example_facts_lookup(1) st
    by (simp del: expand_blocks.simps add: expand_blocks.simps(1))
  have 13: "should_include_item example_runtime ''always'' example_facts = Inr True"
    "?E ''always'' = Inr False"
    using T example_facts_lookup(1) by simp_all
  from 1 2 3 4 5 6 7 8 9 10 11 12 13 example_facts_lookup(1) show ?thesis by simp
qed

theorem always_in_if_block_counterexample:
  "evaluate_condition example_runtime ''always'' example_facts = Inr False
   \<and> render_template example_runtime ''{if always}shown{endif}'' example_facts = Inr []"
  using example_facts_lookup(1)
  by (simp add: evaluate_condition_def render_template_def if_always_blocks ebind_def
        substitute_variables_def strip_def)

subsection \<open>Suggestions\<close>

lemma insort_key_tagged:
  "insort_key (\<lambda>x. f (fst x)) (s, g s) (map (\<lambda>s. (s, g s)) ys)
     = map (\<lambda>s. (s, g s)) (insort_key f s ys)"
  by (induction ys) auto

lemma sort_key_tagged:
  "sort_key (\<lambda>x. f (fst x)) (map (\<lambda>s. (s, g s)) xs) = map (\<lambda>s. (s, g s)) (sort_key f xs)"
  by (induction xs) (auto simp: insort_key_tagged)

lemma suggestions_with_priority_Inr:
  "suggestions_with_priority rt facts suggs = Inr wp \<Longrightarrow>
     wp = map (\<lambda>s. (s, projr (render_template rt (template s) facts)))
            (filter (\<lambda>s. should_include_item rt (sugg_condition s) facts = Inr True) suggs)"
proof (induction suggs arbitrary: wp)
  case Nil
  then show ?case by simp
next
  case (Cons s ss)
  then show ?case
    by (auto simp: ebind_def split: sum.splits if_splits)
qed

lemma render_suggestions_Inr:
  assumes "render_suggestions rt suggs facts = Inr out"
  shows "out = filter (\<lambda>t. t \<noteq> [])
           (map (\<lambda>s. projr (render_template rt (template s) facts))
              (sort_key sugg_priority
                 (filter (\<lambda>s. should_include_item rt (sugg_condition s) facts = Inr True)
                    suggs)))"
proof -
  from assms obtain wp where wp: "suggestions_with_priority rt facts suggs = Inr wp"
    and out: "out = filter (\<lambda>t. t \<noteq> [])
                 (map snd (sort_key (\<lambda>x. sugg_priority (fst x)) wp))"
    unfolding render_suggestions_def ebind_def by (auto split: sum.splits)
  let ?inc = "filter (\<lambda>s. should_include_item rt (sugg_condition s) facts = Inr True) suggs"
  let ?g = "\<lambda>s. projr (render_template rt (template s) facts)"
  have "map snd (sort_key (\<lambda>x. sugg_priority (fst x)) wp)
          = map snd (map (\<lambda>s. (s, ?g s)) (sort_key sugg_priority ?inc))"
    unfolding suggestions_with_priority_Inr [OF wp]
    by (simp only: sort_key_tagged [of sugg_priority ?g ?inc])
  also have "\<dots> = map ?g (sort_key sugg_priority ?inc)"
    by (simp add: comp_def)
  finally show ?thesis
    unfolding out by simp
qed

lemma render_explanation_priority:
  "render_explanation rt ex facts = Inr r \<Longrightarrow>
     render_explanation rt (ex\<lparr>priority := p\<rparr>) facts
       = Inr (r\<lparr>r_metadata := (r_metadata r)\<lparr>md_priority := p\<rparr>\<rparr>)"
  unfolding render_explanation_def ebind_def by (auto split: sum.splits)

text \<open>
  C5, amended. The list that \<open>_render_suggestions\<close> returns holds the rendered texts of
  the suggestions whose condition is true, in ascending order of the suggestions' own
  priority (suggestions of equal priority in their order in the rule), without the
  texts that are empty. The priority of the rule has no part in it: with another
  priority the rendered explanation differs in the priority of its metadata only.
\<close>

theorem suggestions_filtered_sorted_nonempty:
  assumes "render_suggestions rt suggs facts = Inr out"
  shows "out = filter (\<lambda>t. t \<noteq> [])
           (map (\<lambda>s. projr (render_template rt (template s) facts))
              (sort_key sugg_priority
                 (filter (\<lambda>s. should_include_item rt (sugg_condition s) facts = Inr True)
                    suggs)))
     \<and> (render_explanation rt ex facts = Inr r \<longrightarrow>
          render_explanation rt (ex\<lparr>priority := p\<rparr>) facts
            = Inr (r\<lparr>r_metadata := (r_metadata r)\<lparr>md_priority := p\<rparr>\<rparr>))"
  using render_suggestions_Inr [OF assms] render_explanation_priority by blast

theorem suggestions_filtered_sorted_nonempty_witness:
  "render_suggestions example_runtime (suggestions (content typo_rule)) example_facts
     = Inr [''Use lst2'', ''Define lst first'']
   \<and> r_suggestions (projr (render_explanation example_runtime typo_rule example_facts))
     = [''Use lst2'', ''Define lst first'']
   \<and> r_suggestions
       (projr (render_explanation example_runtime (typo_rule\<lparr>priority := 1\<rparr>) example_facts))
     = [''Use lst2'', ''Define lst first'']"
  using suggestions_filtered_sorted_nonempty [OF example_render_suggestions,
      of typo_rule _ 1] example_render_suggestions
  by (simp add: example_render)

theorem empty_suggestion_dropped_counterexample:
  "should_include_item example_runtime ''always'' example_facts = Inr True
   \<and> render_suggestions example_runtime
        [\<lparr>template = ''{if looks_like_import}Try installing it{endif}'', sugg_priority = 0,
          sugg_condition = ''always''\<rparr>] example_facts = Inr []"
  by (simp add: render_suggestions_def should_include_item_def example_templates ebind_def)

section \<open>Properties of the context conditions\<close>

lemma variable_similarity_check:
  "cc_type c = ''variable_similarity'' \<Longrightarrow>
     check_condition c a =
       (float_ge (similarity_score a) (float_or (threshold c) float_0_6)
        \<and> int_or (min_matches c) 1 \<le> int (length (similar_variables a)))"
  by (simp add: check_condition_def Let_def)

lemma variable_similarity_unspecified:
  "cc_type c = ''variable_similarity'' \<Longrightarrow> threshold c = None \<Longrightarrow> min_matches c = None \<Longrightarrow>
     check_condition c a =
       (float_ge (similarity_score a) float_0_6 \<and> 1 \<le> length (similar_variables a))"
  by (auto simp: variable_similarity_check float_or_def int_or_def)

lemma variable_similarity_stated_nonzero:
  "cc_type c = ''variable_similarity'' \<Longrightarrow> threshold c = Some t \<Longrightarrow> t \<noteq> Finite 0 \<Longrightarrow>
   min_matches c = Some m \<Longrightarrow> m \<noteq> 0 \<Longrightarrow>
     check_condition c a =
       (float_ge (similarity_score a) t \<and> m \<le> int (length (similar_variables a)))"
  by (simp add: variable_similarity_check float_or_def int_or_def)

text \<open>
  C4. A \<open>variable_similarity\<close> condition with a stated threshold and a stated number of
  matches is to hold exactly when the score is at least the threshold and there are at
  least that many similar variables. For the stated threshold 0 it does not:
  \<open>check_condition\<close> reads the threshold with \<open>condition.threshold or 0.6\<close>, takes 0.6
  for the stated 0 and answers false on a FactSet whose score is at least 0 and which
  has one similar variable.
\<close>

theorem zero_threshold_replaced_by_default:
  "float_ge (similarity_score weak_match_analysis) (Finite 0)
   \<and> (1::int) \<le> int (length (similar_variables weak_match_analysis))
   \<and> check_condition zero_threshold_condition weak_match_analysis = False"
  by (simp add: check_condition_def zero_threshold_condition_def weak_match_analysis_def
      float_or_def int_or_def float_0_6_def)

section \<open>Properties of the engine facade\<close>

lemma explain_initialize_raises:
  assumes "\<not> initialized eng" and "initialize env eng = (Some err, eng')"
  shows "explain rt env eng e ctx = (Inl err, eng')"
  using assms by (simp add: explain_def)

lemma explain_body_caught:
  assumes "(if initialized eng then (None, eng) else initialize env eng) = (None, eng')"
    and "explain_body rt eng' e ctx = Inl err'"
    and "print_line env (ExplanationError err') = None"
  shows "explain rt env eng e ctx = (Inr None, eng')"
  using assms by (auto simp: explain_def split: if_splits)

lemma explain_body_returns:
  assumes "(if initialized eng then (None, eng) else initialize env eng) = (None, eng')"
    and "explain_body rt eng' e ctx = Inr r"
  shows "explain rt env eng e ctx = (Inr r, eng')"
  using assms by (auto simp: explain_def split: if_splits)

text \<open>
  An exception leaves \<open>explain\<close> in two cases: \<open>initialize\<close> raises it, or the body of the
  \<open>try\<close> statement raises one and the \<open>print\<close> of the handler raises it.
\<close>

lemma explain_raises_iff:
  "(fst (explain rt env eng e ctx) = Inl err) =
     (case (if initialized eng then (None, eng) else initialize env eng) of
        (Some init_err, eng') \<Rightarrow> init_err = err
      | (None, eng') \<Rightarrow>
          (\<exists>err'. explain_body rt eng' e ctx = Inl err'
             \<and> print_line env (ExplanationError err') = Some err))"
  by (cases "initialize env eng")
     (auto simp: explain_def split: if_splits option.splits sum.splits prod.splits)

text \<open>
  C1, amended. An exception that \<open>initialize\<close> raises on the first call leaves \<open>explain\<close>:
  the call of \<open>initialize\<close> stands before the \<open>try\<close> statement. Once the engine is
  initialized, or \<open>initialize\<close> has returned, an exception of analysis, of matching or of
  rendering is caught, and \<open>explain\<close> returns \<open>None\<close> when the \<open>print\<close> of its handler
  returns; \<open>explain\<close> returns \<open>None\<close> when no rule matches; and it returns the rendered
  explanation of the rule found, with the metadata of its pack, when rendering returns.
\<close>

theorem explain_catches_body_not_initialize:
  "(\<not> initialized eng \<and> initialize env eng = (Some err, eng') \<longrightarrow>
        explain rt env eng e ctx = (Inl err, eng'))
   \<and> ((if initialized eng then (None, eng) else initialize env eng) = (None, eng')
        \<and> analyze rt e ctx = Inl err'
        \<and> print_line env (ExplanationError err') = None \<longrightarrow>
        explain rt env eng e ctx = (Inr None, eng'))
   \<and> ((if initialized eng then (None, eng) else initialize env eng) = (None, eng')
        \<and> find_best_explanation rt (loaded_explanations eng') e ctx = Inl err'
        \<and> print_line env (ExplanationError err') = None \<longrightarrow>
        explain rt env eng e ctx = (Inr None, eng'))
   \<and> ((if initialized eng then (None, eng) else initialize env eng) = (None, eng')
        \<and> find_best_explanation rt (loaded_explanations eng') e ctx = Inr (Some (ex, pack, a))
        \<and> render_explanation rt ex (as_dict a) = Inl err'
        \<and> print_line env (ExplanationError err') = None \<longrightarrow>
        explain rt env eng e ctx = (Inr None, eng'))
   \<and> ((if initialized eng then (None, eng) else initialize env eng) = (None, eng')
        \<and> find_best_explanation rt (loaded_explanations eng') e ctx = Inr None \<longrightarrow>
        explain rt env eng e ctx = (Inr None, eng'))
   \<and> ((if initialized eng then (None, eng) else initialize env eng) = (None, eng')
        \<and> find_best_explanation rt (loaded_explanations eng') e ctx = Inr (Some (ex, pack, a))
        \<and> render_explanation rt ex (as_dict a) = Inr r \<longrightarrow>
        explain rt env eng e ctx =
          (Inr (Some (r\<lparr>r_metadata := (r_metadata r)
                  \<lparr>pack_name := Some (meta_name (metadata pack)),
                   pack_version := Some (meta_version (metadata pack)),
                   pack_author := Some (meta_author (metadata pack))\<rparr>\<rparr>)), eng'))"
proof -
  have a: "\<not> initialized eng \<and> initialize env eng = (Some err, eng') \<longrightarrow>
        explain rt env eng e ctx = (Inl err, eng')"
    by (simp add: explain_initialize_raises)
  have b: "(if initialized eng then (None, eng) else initialize env eng) = (None, eng')
        \<and> analyze rt e ctx = Inl err'
        \<and> print_line env (ExplanationError err') = None \<longrightarrow>
        explain rt env eng e ctx = (Inr None, eng')"
    by (auto intro!: explain_body_caught [where err' = err']
             simp: explain_body_def find_best_explanation_def ebind_def)
  have c: "(if initialized eng then (None, eng) else initialize env eng) = (None, eng')
        \<and> find_best_explanation rt (loaded_explanations eng') e ctx = Inl err'
        \<and> print_line env (ExplanationError err') = None \<longrightarrow>
        explain rt env eng e ctx = (Inr None, eng')"
    by (auto intro!: explain_body_caught [where err' = err'] simp: explain_body_def ebind_def)
  have d: "(if initialized eng then (None, eng) else initialize env eng) = (None, eng')
        \<and> find_best_explanation rt (loaded_explanations eng') e ctx = Inr (Some (ex, pack, a))
        \<and> render_explanation rt ex (as_dict a) = Inl err'
        \<and> print_line env (ExplanationError err') = None \<longrightarrow>
        explain rt env eng e ctx = (Inr None, eng')"
    by (auto intro!: explain_body_caught [where err' = err'] simp: explain_body_def ebind_def)
  have f: "(if initialized eng then (None, eng) else initialize env eng) = (None, eng')
        \<and> find_best_explanation rt (loaded_explanations eng') e ctx = Inr None \<longrightarrow>
        explain rt env eng e ctx = (Inr None, eng')"
    by (auto intro!: explain_body_returns simp: explain_body_def ebind_def)
  have g: "(if initialized eng then (None, eng) else initialize env eng) = (None, eng')
        \<and> find_best_explanation rt (loaded_explanations eng') e ctx = Inr (Some (ex, pack, a))
        \<and> render_explanation rt ex (as_dict a) = Inr r \<longrightarrow>
        explain rt env eng e ctx =
          (Inr (Some (r\<lparr>r_metadata := (r_metadata r)
                  \<lparr>pack_name := Some (meta_name (metadata pack)),
                   pack_version := Some (meta_version (metadata pack)),
                   pack_author := Some (meta_author (metadata pack))\<rparr>\<rparr>)), eng')"
    by (auto intro!: explain_body_returns simp: explain_body_def ebind_def)
  from a b c d f g show ?thesis by blast
qed

theorem explain_catches_body_not_initialize_witness:
  "initialize unwritable_home fresh_engine = (Some OSError, fresh_engine)
   \<and> explain example_runtime unwritable_home fresh_engine unpack_exn empty_context
       = (Inl OSError, fresh_engine)
   \<and> analyze example_runtime too_many_exn empty_context = Inl ValueError
   \<and> print_line usual_environment (ExplanationError ValueError) = None
   \<and> explain example_runtime usual_environment loaded_engine too_many_exn empty_context
       = (Inr None, loaded_engine)
   \<and> find_best_explanation example_runtime [(overflow_rule, overflow_pack)] example_exn
       example_context = Inl OverflowError
   \<and> explain example_runtime usual_environment
       \<lparr>initialized = True, loaded_explanations = [(overflow_rule, overflow_pack)]\<rparr>
       example_exn example_context
       = (Inr None, \<lparr>initialized = True, loaded_explanations = [(overflow_rule, overflow_pack)]\<rparr>)
   \<and> find_best_explanation example_runtime (loaded_explanations loaded_engine) unpack_exn
       empty_context = Inr (Some (unpack_rule, unpack_pack, unpack_analysis))
   \<and> render_explanation example_runtime unpack_rule (as_dict unpack_analysis) = Inl OverflowError
   \<and> explain example_runtime usual_environment loaded_engine unpack_exn empty_context
       = (Inr None, loaded_engine)
   \<and> find_best_explanation example_runtime (loaded_explanations loaded_engine) example_exn
       example_context = Inr None
   \<and> explain example_runtime usual_environment loaded_engine example_exn example_context
       = (Inr None, loaded_engine)
   \<and> initialize usual_environment fresh_engine =
       (None, \<lparr>initialized = True,
               loaded_explanations = load_explanations [core_pack, user_pack]\<rparr>)
   \<and> find_best_explanation example_runtime (load_explanations [core_pack, user_pack])
       example_exn example_context = Inr (Some (typo_rule, user_pack, example_analysis))
   \<and> explain example_runtime usual_environment fresh_engine example_exn example_context
       = (Inr (Some \<lparr>r_title = ''Misspelled name: lst'',
                     r_explanation = ''Close to lst2'',
                     r_suggestions = [''Use lst2'', ''Define lst first''],
                     r_examples = [],
                     r_metadata = \<lparr>explanation_id = ''undefined_name_typo'', md_priority = 10,
                                    pack_name = Some ''typos'', pack_version = Some ''0.1.0'',
                                    pack_author = Some ''someone''\<rparr>\<rparr>),
          \<lparr>initialized = True,
           loaded_explanations = load_explanations [core_pack, user_pack]\<rparr>)"
proof -
  have i: "initialized loaded_engine" "\<not> initialized fresh_engine"
    by (simp_all add: loaded_engine_def fresh_engine_def)
  have p: "print_line usual_environment l = None" for l
    by (simp add: usual_environment_def)
  have o: "find_best_explanation example_runtime [(overflow_rule, overflow_pack)] example_exn
       example_context = Inl OverflowError"
    unfolding find_best_explanation_def example_analyze
    by (simp add: ebind_def overflow_matches example_exn_def)
  have 1: "explain example_runtime usual_environment loaded_engine too_many_exn empty_context
       = (Inr None, loaded_engine)"
    using explain_catches_body_not_initialize [of loaded_engine usual_environment OSError
        loaded_engine example_runtime too_many_exn empty_context ValueError]
      i too_many_analyze p
    by simp
  have 2: "explain example_runtime usual_environment
       \<lparr>initialized = True, loaded_explanations = [(overflow_rule, overflow_pack)]\<rparr>
       example_exn example_context
       = (Inr None, \<lparr>initialized = True, loaded_explanations = [(overflow_rule, overflow_pack)]\<rparr>)"
    using explain_catches_body_not_initialize [of
        "\<lparr>initialized = True, loaded_explanations = [(overflow_rule, overflow_pack)]\<rparr>"
        usual_environment OSError
        "\<lparr>initialized = True, loaded_explanations = [(overflow_rule, overflow_pack)]\<rparr>"
        example_runtime example_exn example_context OverflowError]
      o p
    by simp
  have 3: "explain example_runtime usual_environment loaded_engine unpack_exn empty_context
       = (Inr None, loaded_engine)"
    using explain_catches_body_not_initialize [of loaded_engine usual_environment OSError
        loaded_engine example_runtime unpack_exn empty_context OverflowError
        unpack_rule unpack_pack unpack_analysis]
      i unpack_find_best unpack_render p
    by (simp add: loaded_engine_def)
  have 4: "explain example_runtime usual_environment loaded_engine example_exn example_context
       = (Inr None, loaded_engine)"
    using explain_catches_body_not_initialize [of loaded_engine usual_environment OSError
        loaded_engine example_runtime example_exn example_context OverflowError]
      i no_rule_for_example
    by simp
  have 5: "explain example_runtime unwritable_home fresh_engine unpack_exn empty_context
       = (Inl OSError, fresh_engine)"
    using explain_catches_body_not_initialize [of fresh_engine unwritable_home OSError
        fresh_engine example_runtime unpack_exn empty_context OverflowError]
      i unwritable_initialize
    by simp
  have 6: "explain example_runtime usual_environment fresh_engine example_exn example_context
       = (Inr (Some \<lparr>r_title = ''Misspelled name: lst'',
                     r_explanation = ''Close to lst2'',
                     r_suggestions = [''Use lst2'', ''Define lst first''],
                     r_examples = [],
                     r_metadata = \<lparr>explanation_id = ''undefined_name_typo'', md_priority = 10,
                                    pack_name = Some ''typos'', pack_version = Some ''0.1.0'',
                                    pack_author = Some ''someone''\<rparr>\<rparr>),
          \<lparr>initialized = True,
           loaded_explanations = load_explanations [core_pack, user_pack]\<rparr>)"
    using explain_catches_body_not_initialize [of fresh_engine usual_environment OSError
        "\<lparr>initialized = True, loaded_explanations = load_explanations [core_pack, user_pack]\<rparr>"
        example_runtime example_exn example_context OverflowError
        typo_rule user_pack example_analysis
        "\<lparr>r_title = ''Misspelled name: lst'',
          r_explanation = ''Close to lst2'',
          r_suggestions = [''Use lst2'', ''Define lst first''],
          r_examples = [],
          r_metadata = \<lparr>explanation_id = ''undefined_name_typo'', md_priority = 10,
                         pack_name = None, pack_version = None, pack_author = None\<rparr>\<rparr>"]
      i usual_initialize example_find_best example_render [unfolded example_facts_def]
    by (simp add: user_pack_metadata)
  from 1 2 3 4 5 6 o p unwritable_initialize too_many_analyze unpack_find_best unpack_render
    no_rule_for_example usual_initialize example_find_best
  show ?thesis by (simp add: loaded_engine_def)
qed

theorem initialize_failure_propagates_counterexample:
  "explain example_runtime unwritable_home fresh_engine example_exn example_context
     = (Inl OSError, fresh_engine)"
  by (simp add: explain_def unwritable_initialize fresh_engine_def
      unwritable_initialize [unfolded fresh_engine_def])

text \<open>
  Where \<open>sys.stdout\<close> cannot encode the warning of the handler, the exception of
  rendering is caught and \<open>UnicodeEncodeError\<close> leaves \<open>explain\<close>; on the first call it
  leaves \<open>initialize\<close>, after the engine is initialized.
\<close>

lemma handler_print_raises:
  "explain example_runtime ascii_stdout loaded_engine unpack_exn empty_context
     = (Inl UnicodeEncodeError, loaded_engine)"
proof -
  have "explain_body example_runtime loaded_engine unpack_exn empty_context = Inl OverflowError"
    unfolding explain_body_def
    by (simp add: loaded_engine_def unpack_find_best ebind_def unpack_render)
  then show ?thesis
    by (simp add: explain_def loaded_engine_def ascii_stdout_def)
qed

lemma report_print_raises:
  "explain example_runtime ascii_stdout fresh_engine example_exn example_context
     = (Inl UnicodeEncodeError,
        \<lparr>initialized = True, loaded_explanations = load_explanations [core_pack, user_pack]\<rparr>)"
  by (simp add: explain_def fresh_engine_def ascii_initialize [unfolded fresh_engine_def])

lemma missing_directory_unbound:
  "initialize \<lparr>load_core_packs = Inr [core_pack], packages_dir_exists = Inr False,
               load_user_packs = Inr [], print_line = (\<lambda>l. None)\<rparr> fresh_engine
     = (Some UnboundLocalError, fresh_engine)"
  by (simp add: initialize_def fresh_engine_def core_pack_def)

end
